theory Spec2Isabelle
  imports Complex_Main
begin

section \<open>Numbers\<close>

text \<open>
  The game is written in TypeScript; every number is a JavaScript number. The model
  takes them as reals (coordinates, velocities, timers, the score) or as naturals (the
  counters that only ever count up from zero: streak, level, the session statistics).
  Rounding, NaN and the infinities are outside the model; every division of the source
  that the model keeps is guarded by the source against a zero divisor.
\<close>

text \<open>
  \<open>Math.atan2(y, x)\<close>: the angle of the vector \<open>(x, y)\<close> in \<open>(-pi, pi]\<close>, with
  \<open>atan2(0, 0) = 0\<close>.
\<close>

definition atan2 :: "real \<Rightarrow> real \<Rightarrow> real" where
  "atan2 y x =
     (if 0 < x then arctan (y / x)
      else if x < 0 then (if 0 \<le> y then arctan (y / x) + pi else arctan (y / x) - pi)
      else if 0 < y then pi / 2
      else if y < 0 then - (pi / 2)
      else 0)"

text \<open>\<open>Math.hypot(a, b)\<close>.\<close>

definition hypot :: "real \<Rightarrow> real \<Rightarrow> real" where
  "hypot a b = sqrt (a * a + b * b)"

section \<open>Data model (types.ts, constants.ts)\<close>

datatype ColorType = RED | BLUE | GREEN | YELLOW

datatype TargetType = NORMAL | SPLIT | TOUGH | STATIONARY | COLOR_SHIFT | SINE_WAVE | BOSS

datatype TargetShape = CIRCLE | SQUARE | TRIANGLE | DIAMOND | STAR

datatype Difficulty = EASY | MEDIUM | HARD

datatype ParticleType = BURST | DEBRIS | TRAIL | RING | SPARK

text \<open>
  The interfaces of types.ts. Field names carry a prefix (\<open>p_\<close> projectile, \<open>t_\<close>
  target, \<open>q_\<close> particle), since record fields are global constants. The \<open>id\<close>
  strings are React keys made from the clock and \<open>Math.random\<close>; no logic reads them
  and the model leaves them out. An optional field is an \<open>option\<close>.
\<close>

record Projectile =
  p_x :: real
  p_y :: real
  p_vx :: real
  p_vy :: real
  p_color :: ColorType
  p_radius :: real
  p_active :: bool

record Target =
  t_x :: real
  t_y :: real
  t_vx :: real
  t_vy :: real
  t_color :: ColorType
  t_radius :: real
  t_rotation :: real
  t_rotationSpeed :: real
  t_type :: TargetType
  t_shape :: TargetShape
  t_health :: real
  t_maxHealth :: "real option"
  t_colorShiftTimer :: "real option"
  t_initialY :: "real option"
  t_timeOffset :: "real option"
  t_summonTimer :: "real option"

record Particle =
  q_x :: real
  q_y :: real
  q_vx :: real
  q_vy :: real
  q_life :: real
  q_color :: string
  q_size :: real
  q_type :: "ParticleType option"
  q_active :: bool
  q_rotation :: "real option"

record GameStats =
  totalScore :: int
  highScore :: int
  gamesPlayed :: nat
  shotsFired :: nat
  targetsHit :: nat
  targetsMissed :: nat
  highestStreak :: nat
  toughKills :: nat
  splitKills :: nat
  stationaryKills :: nat
  colorShiftKills :: nat
  sineWaveKills :: nat
  bossKills :: nat
  highestLevel :: nat
  hardModeGames :: nat

definition COLOR_KEYS :: "ColorType list" where
  "COLOR_KEYS = [RED, BLUE, GREEN, YELLOW]"

fun TARGET_SCORES :: "TargetType \<Rightarrow> real" where
  "TARGET_SCORES NORMAL = 10"
| "TARGET_SCORES SPLIT = 20"
| "TARGET_SCORES TOUGH = 30"
| "TARGET_SCORES STATIONARY = 15"
| "TARGET_SCORES COLOR_SHIFT = 25"
| "TARGET_SCORES SINE_WAVE = 25"
| "TARGET_SCORES BOSS = 250"

text \<open>GAME_CONFIG.\<close>

definition TARGET_RADIUS :: real where "TARGET_RADIUS = 32"
definition BOSS_RADIUS :: real where "BOSS_RADIUS = 60"
definition PROJECTILE_RADIUS :: real where "PROJECTILE_RADIUS = 12"
definition SHOOTER_RADIUS :: real where "SHOOTER_RADIUS = 20"
definition SPAWN_INTERVAL_START :: real where "SPAWN_INTERVAL_START = 1600"
definition TARGET_SPEED_BASE :: real where "TARGET_SPEED_BASE = 1.5"
definition PROJECTILE_SPEED :: real where "PROJECTILE_SPEED = 10"
definition CONTROLS_HEIGHT :: real where "CONTROLS_HEIGHT = 100"
definition POINTS_PER_LEVEL :: real where "POINTS_PER_LEVEL = 300"

text \<open>DIFFICULTY_SETTINGS, one function per column.\<close>

fun speedMultiplierOf :: "Difficulty \<Rightarrow> real" where
  "speedMultiplierOf EASY = 0.7"
| "speedMultiplierOf MEDIUM = 1.0"
| "speedMultiplierOf HARD = 1.5"

fun spawnIntervalMultiplier :: "Difficulty \<Rightarrow> real" where
  "spawnIntervalMultiplier EASY = 1.3"
| "spawnIntervalMultiplier MEDIUM = 1.0"
| "spawnIntervalMultiplier HARD = 0.7"

fun maxTargets :: "Difficulty \<Rightarrow> real" where
  "maxTargets EASY = 8"
| "maxTargets MEDIUM = 12"
| "maxTargets HARD = 16"

fun scoreMultiplier :: "Difficulty \<Rightarrow> real" where
  "scoreMultiplier EASY = 1"
| "scoreMultiplier MEDIUM = 1.5"
| "scoreMultiplier HARD = 2"

fun bossHealthMulti :: "Difficulty \<Rightarrow> real" where
  "bossHealthMulti EASY = 0.8"
| "bossHealthMulti MEDIUM = 1.0"
| "bossHealthMulti HARD = 1.5"

section \<open>Time scaling (animate, lines 445-451)\<close>

text \<open>\<open>const timeFactor = Math.min(deltaTime / 16.667, 4)\<close>.\<close>

definition timeFactor :: "real \<Rightarrow> real" where
  "timeFactor deltaTime = min (deltaTime / 16.667) 4"

text \<open>The clamp of the specification, to compare with.\<close>

definition clamp :: "real \<Rightarrow> real \<Rightarrow> real \<Rightarrow> real" where
  "clamp v lo hi = max lo (min v hi)"

section \<open>Particle pool (lines 108-117, 183-200, 455-489)\<close>

text \<open>
  The particle pool and its cursor are fields of \<open>gameStateRef\<close> that only the particle
  code reads and writes; they are modelled as a state of their own.
\<close>

record ParticleState =
  particlePool :: "Particle list"
  particleCursor :: nat

text \<open>\<open>Partial<Particle>\<close>: the fields a caller of \<open>spawnParticle\<close> gives.\<close>

record ParticleConfig =
  c_x :: "real option"
  c_y :: "real option"
  c_vx :: "real option"
  c_vy :: "real option"
  c_life :: "real option"
  c_color :: "string option"
  c_size :: "real option"
  c_type :: "ParticleType option"
  c_active :: "bool option"
  c_rotation :: "real option"

definition pool_particle :: Particle where
  "pool_particle =
     \<lparr>q_x = 0, q_y = 0, q_vx = 0, q_vy = 0, q_life = 0, q_color = ''#fff'', q_size = 0,
      q_type = Some BURST, q_active = False, q_rotation = None\<rparr>"

text \<open>The pool before the initialising effect has run, and after it (600 pushes).\<close>

definition empty_particles :: ParticleState where
  "empty_particles = \<lparr>particlePool = [], particleCursor = 0\<rparr>"

definition init_particles :: ParticleState where
  "init_particles = \<lparr>particlePool = replicate 600 pool_particle, particleCursor = 0\<rparr>"

text \<open>\<open>Object.assign(p, config)\<close>: every field the configuration has overwrites.\<close>

definition assign_particle :: "Particle \<Rightarrow> ParticleConfig \<Rightarrow> Particle" where
  "assign_particle p c =
     p\<lparr>q_x := (case c_x c of Some v \<Rightarrow> v | None \<Rightarrow> q_x p),
       q_y := (case c_y c of Some v \<Rightarrow> v | None \<Rightarrow> q_y p),
       q_vx := (case c_vx c of Some v \<Rightarrow> v | None \<Rightarrow> q_vx p),
       q_vy := (case c_vy c of Some v \<Rightarrow> v | None \<Rightarrow> q_vy p),
       q_life := (case c_life c of Some v \<Rightarrow> v | None \<Rightarrow> q_life p),
       q_color := (case c_color c of Some v \<Rightarrow> v | None \<Rightarrow> q_color p),
       q_size := (case c_size c of Some v \<Rightarrow> v | None \<Rightarrow> q_size p),
       q_type := (case c_type c of Some v \<Rightarrow> Some v | None \<Rightarrow> q_type p),
       q_active := (case c_active c of Some v \<Rightarrow> v | None \<Rightarrow> q_active p),
       q_rotation := (case c_rotation c of Some v \<Rightarrow> Some v | None \<Rightarrow> q_rotation p)\<rparr>"

text \<open>
  \<open>spawnParticle\<close>: returns at once on an empty pool; otherwise advances the cursor
  modulo the pool length and, when the slot exists, overwrites it, marks it active and
  resets its rotation when the configuration gives none.
\<close>

definition spawnParticle :: "ParticleConfig \<Rightarrow> ParticleState \<Rightarrow> ParticleState" where
  "spawnParticle config st =
     (if length (particlePool st) = 0 then st
      else
        let idx = particleCursor st;
            pool = particlePool st;
            st1 = st\<lparr>particleCursor := (idx + 1) mod length pool\<rparr>
        in if idx < length pool
           then
             (let p1 = (assign_particle (pool ! idx) config)\<lparr>q_active := True\<rparr>;
                  p2 = (if c_rotation config = None then p1\<lparr>q_rotation := Some 0\<rparr> else p1)
              in st1\<lparr>particlePool := pool[idx := p2]\<rparr>)
           else st1)"

text \<open>
  Step 1 of \<open>animate\<close>: every active particle moves by the rule of its type and is
  switched off when spent. \<open>isNaN\<close> is never true of a real.
\<close>

definition move_particle :: "real \<Rightarrow> Particle \<Rightarrow> Particle" where
  "move_particle tf p =
     (if q_type p = Some TRAIL then
        p\<lparr>q_size := q_size p * 0.75, q_life := q_life p - 0.1 * tf\<rparr>
      else if q_type p = Some DEBRIS then
        (let vy = q_vy p + 0.4 * tf
         in p\<lparr>q_vy := vy, q_x := q_x p + q_vx p * tf, q_y := q_y p + vy * tf,
              q_life := q_life p - 0.015 * tf,
              q_rotation := Some ((case q_rotation p of Some r \<Rightarrow> r | None \<Rightarrow> 0) + 5)\<rparr>)
      else if q_type p = Some RING then
        p\<lparr>q_size := q_size p + 15 * tf, q_life := q_life p - 0.05 * tf\<rparr>
      else if q_type p = Some SPARK then
        p\<lparr>q_x := q_x p + q_vx p * tf, q_y := q_y p + q_vy p * tf,
          q_life := q_life p - 0.05 * tf\<rparr>
      else
        (let vx = q_vx p * 0.92; vy = q_vy p * 0.92
         in p\<lparr>q_vx := vx, q_vy := vy, q_x := q_x p + vx * tf, q_y := q_y p + vy * tf,
              q_life := q_life p - 0.03 * tf, q_size := q_size p * 0.95\<rparr>))"

definition update_particle :: "real \<Rightarrow> Particle \<Rightarrow> Particle" where
  "update_particle tf p =
     (if \<not> q_active p then p
      else
        let p1 = move_particle tf p
        in if q_life p1 \<le> 0.01 \<or> q_size p1 < 0.5 then p1\<lparr>q_active := False\<rparr> else p1)"

definition updateParticles :: "real \<Rightarrow> ParticleState \<Rightarrow> ParticleState" where
  "updateParticles tf st = st\<lparr>particlePool := map (update_particle tf) (particlePool st)\<rparr>"

text \<open>What can happen to the pool: a spawn, or the particle step of a tick.\<close>

datatype particle_op = Spawn ParticleConfig | Tick real

fun apply_particle_op :: "particle_op \<Rightarrow> ParticleState \<Rightarrow> ParticleState" where
  "apply_particle_op (Spawn c) st = spawnParticle c st"
| "apply_particle_op (Tick dt) st = updateParticles (timeFactor dt) st"

definition active_particles :: "ParticleState \<Rightarrow> nat" where
  "active_particles st = length (filter q_active (particlePool st))"

section \<open>Aim assist (getAimAssistVector, lines 202-260)\<close>

definition ASSIST_CONE_ANGLE :: real where
  "ASSIST_CONE_ANGLE = 15 * (pi / 180)"

definition ASSIST_STRENGTH :: real where
  "ASSIST_STRENGTH = 0.3"

record AimResult =
  a_vx :: real
  a_vy :: real
  assisted :: bool

text \<open>
  The variables of the loop. \<open>minAngleDiff\<close> starts at \<open>Infinity\<close>, which is \<open>None\<close>
  here: every angle is below it.
\<close>

record AimAcc =
  bestTarget :: "Target option"
  minAngleDiff :: "real option"
  perfectVx :: real
  perfectVy :: real

definition aim_init :: AimAcc where
  "aim_init = \<lparr>bestTarget = None, minAngleDiff = None, perfectVx = 0, perfectVy = 0\<rparr>"

definition distTo :: "real \<Rightarrow> real \<Rightarrow> Target \<Rightarrow> real" where
  "distTo startX startY t =
     (let dx = t_x t - startX; dy = t_y t - startY in sqrt (dx * dx + dy * dy))"

definition angleDiffTo :: "real \<Rightarrow> real \<Rightarrow> real \<Rightarrow> Target \<Rightarrow> real" where
  "angleDiffTo startX startY baseAngle t =
     (let dx = t_x t - startX;
          dy = t_y t - startY;
          angleToTarget = atan2 dy dx;
          angleDiff = \<bar>angleToTarget - baseAngle\<bar>
      in if angleDiff > pi then 2 * pi - angleDiff else angleDiff)"

definition below_min :: "real \<Rightarrow> real option \<Rightarrow> bool" where
  "below_min a m = (case m of None \<Rightarrow> True | Some b \<Rightarrow> a < b)"

text \<open>One turn of \<open>for (const t of targets)\<close>.\<close>

definition aim_step ::
  "ColorType \<Rightarrow> real \<Rightarrow> real \<Rightarrow> real \<Rightarrow> real \<Rightarrow> Target \<Rightarrow> AimAcc \<Rightarrow> AimAcc" where
  "aim_step cc startX startY baseAngle speed t acc =
     (if t_color t \<noteq> cc then acc
      else
        let dx = t_x t - startX;
            dy = t_y t - startY;
            dist = distTo startX startY t
        in if dist \<le> 0.1 then acc
           else
             let angleDiff = angleDiffTo startX startY baseAngle t
             in if angleDiff < ASSIST_CONE_ANGLE \<and> below_min angleDiff (minAngleDiff acc)
                then \<lparr>bestTarget = Some t, minAngleDiff = Some angleDiff,
                      perfectVx = (dx / dist) * speed, perfectVy = (dy / dist) * speed\<rparr>
                else acc)"

text \<open>The blend after the loop, for a target that was found.\<close>

definition blend :: "real \<Rightarrow> real \<Rightarrow> real \<Rightarrow> real \<Rightarrow> real \<Rightarrow> AimResult" where
  "blend baseVx baseVy pVx pVy speed =
     (let newVx = baseVx + (pVx - baseVx) * ASSIST_STRENGTH;
          newVy = baseVy + (pVy - baseVy) * ASSIST_STRENGTH;
          newSpeed = sqrt (newVx * newVx + newVy * newVy)
      in if newSpeed > 0
         then \<lparr>a_vx = (newVx / newSpeed) * speed, a_vy = (newVy / newSpeed) * speed,
               assisted = True\<rparr>
         else \<lparr>a_vx = baseVx, a_vy = baseVy, assisted = False\<rparr>)"

definition getAimAssistVector ::
  "ColorType \<Rightarrow> real \<Rightarrow> real \<Rightarrow> real \<Rightarrow> real \<Rightarrow> Target list \<Rightarrow> AimResult" where
  "getAimAssistVector cc startX startY baseVx baseVy ts =
     (let baseAngle = atan2 baseVy baseVx;
          speed = sqrt (baseVx * baseVx + baseVy * baseVy)
      in if speed < 0.1 then \<lparr>a_vx = baseVx, a_vy = baseVy, assisted = False\<rparr>
         else
           let acc = fold (aim_step cc startX startY baseAngle speed) ts aim_init
           in case bestTarget acc of
                Some b \<Rightarrow> blend baseVx baseVy (perfectVx acc) (perfectVy acc) speed
              | None \<Rightarrow> \<lparr>a_vx = baseVx, a_vy = baseVy, assisted = False\<rparr>)"

text \<open>
  A candidate of the assist, as the loop tests it: the selected colour, farther than
  0.1 from the shot origin, and strictly inside the cone.
\<close>

definition candidate :: "ColorType \<Rightarrow> real \<Rightarrow> real \<Rightarrow> real \<Rightarrow> Target \<Rightarrow> bool" where
  "candidate cc startX startY baseAngle t =
     (t_color t = cc \<and> 0.1 < distTo startX startY t
      \<and> angleDiffTo startX startY baseAngle t < ASSIST_CONE_ANGLE)"

text \<open>
  The candidate of the specification's words: the selected colour and inside the cone,
  whatever the distance.
\<close>

definition in_cone :: "ColorType \<Rightarrow> real \<Rightarrow> real \<Rightarrow> real \<Rightarrow> Target \<Rightarrow> bool" where
  "in_cone cc startX startY baseAngle t =
     (t_color t = cc \<and> angleDiffTo startX startY baseAngle t < ASSIST_CONE_ANGLE)"

text \<open>The velocity that aims straight at a target, at the shot's speed.\<close>

definition perfect_for :: "real \<Rightarrow> real \<Rightarrow> real \<Rightarrow> Target \<Rightarrow> real \<times> real" where
  "perfect_for startX startY speed t =
     (let dx = t_x t - startX; dy = t_y t - startY; dist = distTo startX startY t
      in ((dx / dist) * speed, (dy / dist) * speed))"

section \<open>Session state (lines 19-92)\<close>

text \<open>
  The mutable state of one \<open>Game\<close> component: the fields of \<open>gameStateRef\<close> (without the
  particle pool, see above), the other refs the simulation reads (\<open>spawnTimerRef\<close>,
  \<open>lastShotTimeRef\<close>, \<open>lastTimeRef\<close>, \<open>dimensionsRef\<close>, \<open>sessionStatsRef\<close>), the React
  state \<open>tutorialStep\<close>, and the timers set with \<open>setTimeout\<close> for \<open>onGameOver\<close> (the
  delay of each, in the order they were set). Sounds, particles and the React state
  that only mirrors these fields for drawing are effects that nothing here reads back;
  the model leaves those calls out.
\<close>

record SimState =
  projectilePool :: "Projectile list"
  targets :: "Target list"
  currentColor :: ColorType
  score :: real
  level :: nat
  scoreSinceLastBoss :: real
  bossActive :: bool
  streak :: nat
  speedMultiplier :: real
  baseSpawnInterval :: real
  nextSpawnDelay :: real
  isGameOver :: bool
  isEnding :: bool
  shakeTimer :: real
  time :: real
  lastScoreMilestone :: int
  spawnTimer :: real
  lastShotTime :: real
  lastTime :: real
  dim_width :: real
  dim_height :: real
  sessionStats :: GameStats
  tutorialStep :: nat
  handoffTimers :: "real list"

definition pool_projectile :: Projectile where
  "pool_projectile =
     \<lparr>p_x = 0, p_y = 0, p_vx = 0, p_vy = 0, p_color = RED, p_radius = PROJECTILE_RADIUS,
      p_active = False\<rparr>"

definition init_stats :: "Difficulty \<Rightarrow> GameStats" where
  "init_stats d =
     \<lparr>totalScore = 0, highScore = 0, gamesPlayed = 1, shotsFired = 0, targetsHit = 0,
      targetsMissed = 0, highestStreak = 0, toughKills = 0, splitKills = 0,
      stationaryKills = 0, colorShiftKills = 0, sineWaveKills = 0, bossKills = 0,
      highestLevel = 1, hardModeGames = (if d = HARD then 1 else 0)\<rparr>"

text \<open>
  The state once the component is mounted and its effects have run: 50 pooled
  projectiles, and the dimensions the container has.
\<close>

definition init_state :: "Difficulty \<Rightarrow> bool \<Rightarrow> real \<Rightarrow> real \<Rightarrow> SimState" where
  "init_state d initialTutorial w h =
     \<lparr>projectilePool = replicate 50 pool_projectile,
      targets = [],
      currentColor = RED,
      score = 0,
      level = 1,
      scoreSinceLastBoss = 0,
      bossActive = False,
      streak = 0,
      speedMultiplier = 1,
      baseSpawnInterval = SPAWN_INTERVAL_START * spawnIntervalMultiplier d,
      nextSpawnDelay = 0,
      isGameOver = False,
      isEnding = False,
      shakeTimer = 0,
      time = 0,
      lastScoreMilestone = 0,
      spawnTimer = SPAWN_INTERVAL_START * spawnIntervalMultiplier d + 100,
      lastShotTime = 0,
      lastTime = 0,
      dim_width = w,
      dim_height = h,
      sessionStats = init_stats d,
      tutorialStep = (if initialTutorial then 1 else 0),
      handoffTimers = []\<rparr>"

text \<open>
  \<open>Math.random()\<close>. Each call site of the source has a name; a tick is given the values
  the calls return, one per site and per instance (the index of the target or of the
  projectile the call is made for, 0 where a site is reached once in a tick).
\<close>

datatype site =
  BossFilter | BossColor | BossVx
  | Interval | SpawnColor | SpawnX | SpawnY | SpawnAngle | SpawnShape | SpawnRoll
  | SpawnTypeRoll | SpawnSineDir | SpawnRotation | SpawnRotationSpeed | SpawnTimeOffset
  | ShiftPick | MinionAngle | MinionVx | MinionVy | ChildRotationSpeed

type_synonym rand = "site \<Rightarrow> nat \<Rightarrow> real"

text \<open>\<open>xs[Math.floor(r * xs.length)]\<close>, for \<open>r\<close> a value of \<open>Math.random()\<close>.\<close>

definition pick :: "'a list \<Rightarrow> real \<Rightarrow> 'a" where
  "pick xs r = xs ! nat \<lfloor>r * real (length xs)\<rfloor>"

section \<open>Spawning (animate, lines 517-635)\<close>

definition pointsForNextLevel :: "SimState \<Rightarrow> real" where
  "pointsForNextLevel s = POINTS_PER_LEVEL + real (level s) * 100"

definition playableHeight :: "SimState \<Rightarrow> real" where
  "playableHeight s = dim_height s - CONTROLS_HEIGHT"

text \<open>\<open>xs.filter(t => P)\<close> where \<open>P\<close> depends on the position in the list only.\<close>

primrec filter_indexed :: "(nat \<Rightarrow> bool) \<Rightarrow> nat \<Rightarrow> 'a list \<Rightarrow> 'a list" where
  "filter_indexed P i [] = []"
| "filter_indexed P i (x # xs) =
     (if P i then x # filter_indexed P (Suc i) xs else filter_indexed P (Suc i) xs)"

definition boss_target :: "Difficulty \<Rightarrow> rand \<Rightarrow> SimState \<Rightarrow> Target" where
  "boss_target d rnd s =
     \<lparr>t_x = dim_width s / 2,
      t_y = - 120,
      t_vx = (rnd BossVx 0 - 0.5) * 2,
      t_vy = 3,
      t_color = pick COLOR_KEYS (rnd BossColor 0),
      t_radius = BOSS_RADIUS,
      t_rotation = 0,
      t_rotationSpeed = 1,
      t_type = BOSS,
      t_shape = STAR,
      t_health = 10 + (real (level s) * 5 * bossHealthMulti d),
      t_maxHealth = Some (10 + (real (level s) * 5 * bossHealthMulti d)),
      t_colorShiftTimer = Some 0,
      t_initialY = None,
      t_timeOffset = None,
      t_summonTimer = Some 4000\<rparr>"

text \<open>The boss trigger (lines 521-548).\<close>

definition boss_trigger :: "Difficulty \<Rightarrow> rand \<Rightarrow> SimState \<Rightarrow> SimState" where
  "boss_trigger d rnd s =
     (if \<not> bossActive s \<and> scoreSinceLastBoss s > pointsForNextLevel s
      then
        let s1 = s\<lparr>bossActive := True, scoreSinceLastBoss := 0\<rparr>;
            s2 = s1\<lparr>targets := filter_indexed (\<lambda>i. rnd BossFilter i > 0.6) 0 (targets s1)\<rparr>
        in s2\<lparr>targets := targets s2 @ [boss_target d rnd s2]\<rparr>
      else s)"

text \<open>The density cap (lines 558-559).\<close>

definition calculatedMax :: "Difficulty \<Rightarrow> SimState \<Rightarrow> int" where
  "calculatedMax d s = \<lfloor>maxTargets d * (1 + (speedMultiplier s - 1) * 0.5)\<rfloor>"

definition currentMaxTargets :: "Difficulty \<Rightarrow> SimState \<Rightarrow> int" where
  "currentMaxTargets d s = min (calculatedMax d s) 24"

definition specialChance :: "Difficulty \<Rightarrow> real" where
  "specialChance d = (if d = EASY then 0.15 else if d = MEDIUM then 0.35 else 0.6)"

definition availableShapes :: "SimState \<Rightarrow> TargetShape list" where
  "availableShapes s =
     [CIRCLE] @ (if level s \<ge> 2 then [SQUARE] else [])
       @ (if level s \<ge> 3 then [TRIANGLE] else [])
       @ (if level s \<ge> 4 then [DIAMOND] else [])"

definition roll_type :: "Difficulty \<Rightarrow> rand \<Rightarrow> SimState \<Rightarrow> TargetType" where
  "roll_type d rnd s =
     (if score s \<ge> 15 \<or> d \<noteq> EASY
      then
        (if rnd SpawnRoll 0 < specialChance d
         then
           (let typeRoll = rnd SpawnTypeRoll 0
            in if typeRoll < 0.25 then TOUGH
               else if typeRoll < 0.45 then SPLIT
               else if typeRoll < 0.65 then STATIONARY
               else if typeRoll < 0.85 then COLOR_SHIFT
               else SINE_WAVE)
         else NORMAL)
      else NORMAL)"

text \<open>The target an ordinary spawn pushes, at a position that was found valid.\<close>

definition new_target :: "Difficulty \<Rightarrow> rand \<Rightarrow> SimState \<Rightarrow> real \<Rightarrow> real \<Rightarrow> Target" where
  "new_target d rnd s startX startY0 =
     (let radius = TARGET_RADIUS;
          angle = rnd SpawnAngle 0 * pi * 2;
          speed = TARGET_SPEED_BASE * speedMultiplier s * speedMultiplierOf d;
          targetShape = pick (availableShapes s) (rnd SpawnShape 0);
          targetType = roll_type d rnd s;
          vx0 = cos angle * speed;
          vy0 = sin angle * speed;
          targetHealth = (if targetType = TOUGH then 3 else 1);
          vx = (if targetType = TOUGH then vx0 * 0.8
                else if targetType = STATIONARY then 0
                else if targetType = SINE_WAVE
                  then (if rnd SpawnSineDir 0 > 0.5 then 1 else - 1) * speed * 1.2
                else vx0);
          vy = (if targetType = TOUGH then vy0 * 0.8
                else if targetType = STATIONARY then 0
                else if targetType = SINE_WAVE then 0
                else vy0);
          startY = (if targetType = SINE_WAVE
                    then max (radius + 70) (min (playableHeight s - radius - 70) startY0)
                    else startY0)
      in \<lparr>t_x = startX, t_y = startY, t_vx = vx, t_vy = vy,
          t_color = pick COLOR_KEYS (rnd SpawnColor 0),
          t_radius = radius,
          t_rotation = rnd SpawnRotation 0 * 360,
          t_rotationSpeed = (rnd SpawnRotationSpeed 0 - 0.5) * 2,
          t_type = targetType,
          t_shape = targetShape,
          t_health = targetHealth,
          t_maxHealth = None,
          t_colorShiftTimer = Some 0,
          t_initialY = Some startY,
          t_timeOffset = Some (rnd SpawnTimeOffset 0 * 1000),
          t_summonTimer = None\<rparr>)"

text \<open>
  The body of \<open>if (spawnTimerRef.current > effectiveSpawnDelay)\<close> after the timer and
  the next delay are set (lines 558-633): the ordinary spawn.
\<close>

definition ordinary_spawn :: "Difficulty \<Rightarrow> rand \<Rightarrow> SimState \<Rightarrow> SimState" where
  "ordinary_spawn d rnd s =
     (if int (length (targets s)) < currentMaxTargets d s
         \<and> (if bossActive s then length (targets s) < 3 else True)
      then
        let radius = TARGET_RADIUS;
            startX = rnd SpawnX 0 * (dim_width s - radius * 2) + radius;
            startY = rnd SpawnY 0 * (playableHeight s * 0.6) + radius;
            validPosition =
              list_all (\<lambda>t. \<not> hypot (t_x t - startX) (t_y t - startY) < radius * 2 + 40)
                (targets s)
        in if validPosition
           then s\<lparr>targets := targets s @ [new_target d rnd s startX startY]\<rparr>
           else s
      else s)"

definition spawn_timer :: "Difficulty \<Rightarrow> rand \<Rightarrow> real \<Rightarrow> SimState \<Rightarrow> SimState" where
  "spawn_timer d rnd deltaTime s =
     (let s1 = s\<lparr>spawnTimer := spawnTimer s + deltaTime\<rparr>;
          effectiveSpawnDelay =
            (if bossActive s1 then nextSpawnDelay s1 * 4 else nextSpawnDelay s1)
      in if spawnTimer s1 > effectiveSpawnDelay
         then
           ordinary_spawn d rnd
             (s1\<lparr>spawnTimer := 0,
                 nextSpawnDelay := baseSpawnInterval s1 * (0.6 + rnd Interval 0 * 0.8)\<rparr>)
         else s1)"

definition spawning :: "Difficulty \<Rightarrow> rand \<Rightarrow> real \<Rightarrow> SimState \<Rightarrow> SimState" where
  "spawning d rnd deltaTime s = spawn_timer d rnd deltaTime (boss_trigger d rnd s)"

section \<open>Target motion and abilities (animate, lines 637-710)\<close>

definition speed_milestone :: "SimState \<Rightarrow> SimState" where
  "speed_milestone s =
     (let scoreMilestone = \<lfloor>score s / 20\<rfloor>
      in if scoreMilestone > lastScoreMilestone s
         then s\<lparr>lastScoreMilestone := scoreMilestone,
                speedMultiplier := min 2.5 (speedMultiplier s + 0.05)\<rparr>
         else s)"

text \<open>\<open>v || 0\<close> for an optional number.\<close>

definition or0 :: "real option \<Rightarrow> real" where
  "or0 v = (case v of Some r \<Rightarrow> r | None \<Rightarrow> 0)"

definition remainingColors :: "ColorType \<Rightarrow> ColorType list" where
  "remainingColors c = filter (\<lambda>k. k \<noteq> c) COLOR_KEYS"

text \<open>The colour flip that the boss and the COLOR_SHIFT targets share.\<close>

definition color_shift :: "rand \<Rightarrow> real \<Rightarrow> nat \<Rightarrow> Target \<Rightarrow> Target" where
  "color_shift rnd deltaTime i t =
     (let timer = or0 (t_colorShiftTimer t) + deltaTime
      in if timer > 2500
         then t\<lparr>t_colorShiftTimer := Some 0,
                t_color := pick (remainingColors (t_color t)) (rnd ShiftPick i)\<rparr>
         else t\<lparr>t_colorShiftTimer := Some timer\<rparr>)"

text \<open>The minion \<open>k\<close> of the boss \<open>t\<close>, which stands at index \<open>i\<close>.\<close>

definition minion :: "rand \<Rightarrow> nat \<Rightarrow> Target \<Rightarrow> nat \<Rightarrow> Target" where
  "minion rnd i t k =
     (let angle = rnd MinionAngle (2 * i + k) * pi * 2;
          dist = t_radius t + 40;
          mX = t_x t + cos angle * dist;
          mY = t_y t + sin angle * dist
      in \<lparr>t_x = mX, t_y = mY,
          t_vx = (rnd MinionVx (2 * i + k) - 0.5) * 3,
          t_vy = (rnd MinionVy (2 * i + k) - 0.5) * 3,
          t_color = t_color t,
          t_radius = TARGET_RADIUS * 0.8,
          t_rotation = 0,
          t_rotationSpeed = 2,
          t_type = NORMAL,
          t_shape = CIRCLE,
          t_health = 1,
          t_maxHealth = None,
          t_colorShiftTimer = None,
          t_initialY = None,
          t_timeOffset = None,
          t_summonTimer = None\<rparr>)"

text \<open>The boss branch: the target after it, and the minions it pushes.\<close>

definition boss_update ::
  "rand \<Rightarrow> real \<Rightarrow> real \<Rightarrow> nat \<Rightarrow> Target \<Rightarrow> Target \<times> Target list" where
  "boss_update rnd deltaTime ph i t =
     (let t1 = (if t_y t < t_radius t \<and> t_vy t < 0 then t\<lparr>t_vy := \<bar>t_vy t\<bar>\<rparr> else t);
          t2 = (if t_y t1 > ph * 0.6 then t1\<lparr>t_vy := - \<bar>t_vy t1\<bar> * 1.2\<rparr> else t1);
          t3 = color_shift rnd deltaTime i t2;
          summon = or0 (t_summonTimer t3) - deltaTime;
          t4 = (if summon \<le> 0 then t3\<lparr>t_summonTimer := Some 5000\<rparr>
                else t3\<lparr>t_summonTimer := Some summon\<rparr>);
          minions = (if summon \<le> 0 then [minion rnd i t3 0, minion rnd i t3 1] else []);
          enraged = (case t_maxHealth t4 of
                       Some m \<Rightarrow> m \<noteq> 0 \<and> t_health t4 < m * 0.4
                     | None \<Rightarrow> False);
          t5 = (if enraged
                then t4\<lparr>t_rotationSpeed := 5,
                        t_vx := (if \<bar>t_vx t4\<bar> < 2 then t_vx t4 * 1.01 else t_vx t4),
                        t_vy := (if \<bar>t_vy t4\<bar> < 2 then t_vy t4 * 1.01 else t_vy t4)\<rparr>
                else t4)
      in (t5, minions))"

definition move_target :: "real \<Rightarrow> real \<Rightarrow> Target \<Rightarrow> Target" where
  "move_target tf tm t =
     (let t1 = (if t_type t = SINE_WAVE \<and> t_initialY t \<noteq> None
                then t\<lparr>t_x := t_x t + t_vx t * tf,
                       t_y := the (t_initialY t) + sin ((tm + or0 (t_timeOffset t)) * 0.004) * 60\<rparr>
                else t\<lparr>t_x := t_x t + t_vx t * tf, t_y := t_y t + t_vy t * tf\<rparr>)
      in t1\<lparr>t_rotation := t_rotation t1 + t_rotationSpeed t1 * tf\<rparr>)"

text \<open>One call of the \<open>forEach\<close> callback, for the target at index \<open>i\<close>.\<close>

definition update_target ::
  "rand \<Rightarrow> real \<Rightarrow> real \<Rightarrow> real \<Rightarrow> real \<Rightarrow> nat \<Rightarrow> Target \<Rightarrow> Target \<times> Target list" where
  "update_target rnd deltaTime tf ph tm i t =
     (let (t1, minions) =
            (if t_type t = BOSS then boss_update rnd deltaTime ph i t
             else if t_type t = COLOR_SHIFT then (color_shift rnd deltaTime i t, [])
             else (t, []))
      in (move_target tf tm t1, minions))"

text \<open>
  \<open>state.targets.forEach\<close>: the callback runs for the targets that were in the list when
  the loop began; what it pushes goes to the end and is not visited.
\<close>

definition update_targets ::
  "rand \<Rightarrow> real \<Rightarrow> real \<Rightarrow> real \<Rightarrow> real \<Rightarrow> Target list \<Rightarrow> Target list" where
  "update_targets rnd deltaTime tf ph tm ts =
     (let rs = map (\<lambda>(i, t). update_target rnd deltaTime tf ph tm i t) (enumerate 0 ts)
      in map fst rs @ concat (map snd rs))"

definition physics_logic :: "rand \<Rightarrow> real \<Rightarrow> SimState \<Rightarrow> SimState" where
  "physics_logic rnd deltaTime s =
     (let s1 = speed_milestone s
      in s1\<lparr>targets :=
             update_targets rnd deltaTime (timeFactor deltaTime) (playableHeight s1) (time s1)
               (targets s1)\<rparr>)"

section \<open>Collisions and walls (animate, lines 712-800)\<close>

definition getMass :: "Target \<Rightarrow> real" where
  "getMass t = (if t_type t = BOSS then 100 else if t_type t = TOUGH then 3 else 1)"

text \<open>\<open>invM\<close>: 0 for the infinite mass of a STATIONARY target.\<close>

definition invMass :: "Target \<Rightarrow> real" where
  "invMass t = (if t_type t = STATIONARY then 0 else 1 / getMass t)"

definition collide_pair :: "Target \<Rightarrow> Target \<Rightarrow> Target \<times> Target" where
  "collide_pair t1 t2 =
     (let dx = t_x t2 - t_x t1;
          dy = t_y t2 - t_y t1;
          distSq = dx * dx + dy * dy;
          minDist = t_radius t1 + t_radius t2
      in if distSq < minDist * minDist
         then
           (let dist = sqrt distSq
            in if dist < 0.1 then (t1, t2)
               else
                 let nx = dx / dist;
                     ny = dy / dist;
                     overlap = minDist - dist;
                     invM1 = invMass t1;
                     invM2 = invMass t2;
                     totalInvMass = invM1 + invM2
                 in if totalInvMass > 0
                    then
                      (let moveX = nx * (overlap * 0.8) / totalInvMass;
                           moveY = ny * (overlap * 0.8) / totalInvMass;
                           a1 = (if t_type t1 \<noteq> STATIONARY
                                 then t1\<lparr>t_x := t_x t1 - moveX * invM1,
                                         t_y := t_y t1 - moveY * invM1\<rparr>
                                 else t1);
                           a2 = (if t_type t2 \<noteq> STATIONARY
                                 then t2\<lparr>t_x := t_x t2 + moveX * invM2,
                                         t_y := t_y t2 + moveY * invM2\<rparr>
                                 else t2);
                           dvx = t_vx a2 - t_vx a1;
                           dvy = t_vy a2 - t_vy a1;
                           velAlongNormal = dvx * nx + dvy * ny
                       in if velAlongNormal < 0
                          then
                            (let j = - (1 + 0.9) * velAlongNormal / totalInvMass;
                                 impulseX = j * nx;
                                 impulseY = j * ny;
                                 b1 = (if t_type a1 \<noteq> STATIONARY
                                       then a1\<lparr>t_vx := t_vx a1 - impulseX * invM1,
                                               t_vy := t_vy a1 - impulseY * invM1\<rparr>
                                       else a1);
                                 b2 = (if t_type a2 \<noteq> STATIONARY
                                       then a2\<lparr>t_vx := t_vx a2 + impulseX * invM2,
                                               t_vy := t_vy a2 + impulseY * invM2\<rparr>
                                       else a2)
                             in (b1, b2))
                          else (a1, a2))
                    else (t1, t2))
         else (t1, t2))"

definition collide_at :: "nat \<Rightarrow> nat \<Rightarrow> Target list \<Rightarrow> Target list" where
  "collide_at i j ts = (let (a, b) = collide_pair (ts ! i) (ts ! j) in ts[i := a, j := b])"

text \<open>The pairs \<open>i < j < n\<close> in the order the two nested loops visit them.\<close>

definition index_pairs :: "nat \<Rightarrow> (nat \<times> nat) list" where
  "index_pairs n = concat (map (\<lambda>i. map (\<lambda>j. (i, j)) [Suc i ..< n]) [0 ..< n])"

definition collide_all :: "Target list \<Rightarrow> Target list" where
  "collide_all ts = fold (\<lambda>(i, j). collide_at i j) (index_pairs (length ts)) ts"

definition wall_x :: "real \<Rightarrow> Target \<Rightarrow> Target" where
  "wall_x w t =
     (if t_x t - t_radius t < 0 then t\<lparr>t_x := t_radius t, t_vx := \<bar>t_vx t\<bar> * 0.9\<rparr>
      else if t_x t + t_radius t > w
        then t\<lparr>t_x := w - t_radius t, t_vx := - \<bar>t_vx t\<bar> * 0.9\<rparr>
      else t)"

definition wall_y :: "real \<Rightarrow> Target \<Rightarrow> Target" where
  "wall_y ph t =
     (if t_type t \<noteq> SINE_WAVE \<and> t_type t \<noteq> BOSS
      then
        (if t_y t - t_radius t < 0 then t\<lparr>t_y := t_radius t, t_vy := \<bar>t_vy t\<bar> * 0.9\<rparr>
         else if t_y t + t_radius t > ph
           then t\<lparr>t_y := ph - t_radius t, t_vy := - \<bar>t_vy t\<bar> * 0.9\<rparr>
         else t)
      else t)"

definition physics_step :: "real \<Rightarrow> real \<Rightarrow> Target list \<Rightarrow> Target list" where
  "physics_step w ph ts = map (\<lambda>t. wall_y ph (wall_x w t)) (collide_all ts)"

text \<open>\<open>physicsSteps = 2\<close>.\<close>

definition collisions :: "SimState \<Rightarrow> SimState" where
  "collisions s =
     s\<lparr>targets :=
         physics_step (dim_width s) (playableHeight s)
           (physics_step (dim_width s) (playableHeight s) (targets s))\<rparr>"

section \<open>Projectiles and hits (animate, lines 802-951)\<close>

text \<open>\<open>dist < target.radius + 8\<close>.\<close>

definition in_range :: "Projectile \<Rightarrow> Target \<Rightarrow> bool" where
  "in_range proj target =
     (let dx = p_x proj - t_x target;
          dy = p_y proj - t_y target;
          dist = sqrt (dx * dx + dy * dy)
      in dist < t_radius target + 8)"

text \<open>
  \<open>for (let i = state.targets.length - 1; i >= 0; i--)\<close> up to its \<open>break\<close>: the index of
  the first target in range, from \<open>n - 1\<close> downwards.
\<close>

fun find_hit :: "Projectile \<Rightarrow> Target list \<Rightarrow> nat \<Rightarrow> nat option" where
  "find_hit proj ts 0 = None"
| "find_hit proj ts (Suc i) = (if in_range proj (ts ! i) then Some i else find_hit proj ts i)"

definition streakMultiplier :: "nat \<Rightarrow> real" where
  "streakMultiplier n =
     (let m1 = (if n > 5 then 1.5 else 1);
          m2 = (if n > 10 then 2 else m1);
          m3 = (if n > 20 then 3 else m2)
      in m3)"

text \<open>\<open>TARGET_SCORES[target.type] || 10\<close>.\<close>

definition baseScoreOf :: "TargetType \<Rightarrow> real" where
  "baseScoreOf ty = (if TARGET_SCORES ty = 0 then 10 else TARGET_SCORES ty)"

text \<open>\<open>xs.splice(i, 1)\<close>.\<close>

definition splice1 :: "nat \<Rightarrow> 'a list \<Rightarrow> 'a list" where
  "splice1 i xs = take i xs @ drop (Suc i) xs"

text \<open>The child \<open>k\<close> of a split target (lines 909-925), for the projectile in slot \<open>pj\<close>.\<close>

definition split_child :: "rand \<Rightarrow> nat \<Rightarrow> Target \<Rightarrow> nat \<Rightarrow> Target" where
  "split_child rnd pj target k =
     (let childRadius = t_radius target * 0.6;
          angleOffset = (if k = 0 then 1 else - 1) * (pi / 3);
          baseAngle = atan2 (t_vy target) (t_vx target);
          newAngle = baseAngle + angleOffset;
          speed = max 4 (sqrt (t_vx target * t_vx target + t_vy target * t_vy target) * 1.5)
      in \<lparr>t_x = t_x target + cos newAngle * 20,
          t_y = t_y target + sin newAngle * 20,
          t_vx = cos newAngle * speed,
          t_vy = sin newAngle * speed,
          t_color = t_color target,
          t_radius = childRadius,
          t_rotation = 0,
          t_rotationSpeed = (rnd ChildRotationSpeed (2 * pj + k) - 0.5) * 8,
          t_type = NORMAL,
          t_shape = CIRCLE,
          t_health = 1,
          t_maxHealth = None,
          t_colorShiftTimer = None,
          t_initialY = None,
          t_timeOffset = None,
          t_summonTimer = None\<rparr>)"

text \<open>The statistics of a destruction (lines 898-904).\<close>

definition kill_stats :: "TargetType \<Rightarrow> GameStats \<Rightarrow> GameStats" where
  "kill_stats ty st =
     (let st1 = st\<lparr>targetsHit := targetsHit st + 1\<rparr>;
          st2 = (if ty = TOUGH then st1\<lparr>toughKills := toughKills st1 + 1\<rparr> else st1);
          st3 = (if ty = SPLIT then st2\<lparr>splitKills := splitKills st2 + 1\<rparr> else st2);
          st4 = (if ty = STATIONARY then st3\<lparr>stationaryKills := stationaryKills st3 + 1\<rparr>
                 else st3);
          st5 = (if ty = COLOR_SHIFT then st4\<lparr>colorShiftKills := colorShiftKills st4 + 1\<rparr>
                 else st4);
          st6 = (if ty = SINE_WAVE then st5\<lparr>sineWaveKills := sineWaveKills st5 + 1\<rparr>
                 else st5)
      in st6)"

text \<open>The boss branch of a destruction (lines 876-887).\<close>

definition boss_defeated :: "SimState \<Rightarrow> SimState" where
  "boss_defeated s =
     (let s1 = s\<lparr>level := level s + 1\<rparr>;
          s2 = s1\<lparr>bossActive := False, scoreSinceLastBoss := 0\<rparr>;
          st = sessionStats s2;
          st1 = st\<lparr>bossKills := bossKills st + 1\<rparr>;
          st2 = st1\<lparr>highestLevel := max (highestLevel st1) (level s2)\<rparr>;
          s3 = s2\<lparr>sessionStats := st2\<rparr>;
          s4 = s3\<lparr>speedMultiplier := speedMultiplier s3 + 0.2\<rparr>
      in s4\<lparr>baseSpawnInterval := max 300 (baseSpawnInterval s4 - 50)\<rparr>)"

text \<open>The damage branch (lines 848-856): the target at \<open>i\<close> loses one health point.\<close>

definition damage :: "Difficulty \<Rightarrow> nat \<Rightarrow> SimState \<Rightarrow> SimState" where
  "damage d i s =
     (let target = targets s ! i;
          s1 = s\<lparr>targets := (targets s)[i := target\<lparr>t_health := t_health target - 1\<rparr>]\<rparr>;
          s2 = s1\<lparr>score := score s1 + (if t_type target = BOSS then 10 else 5) * scoreMultiplier d\<rparr>
      in s2\<lparr>scoreSinceLastBoss := scoreSinceLastBoss s2 + 10\<rparr>)"

text \<open>The destruction branch (lines 858-927).\<close>

definition destroy :: "Difficulty \<Rightarrow> rand \<Rightarrow> nat \<Rightarrow> nat \<Rightarrow> SimState \<Rightarrow> SimState" where
  "destroy d rnd pj i s =
     (let target = targets s ! i;
          multiplier = streakMultiplier (streak s);
          baseScore = baseScoreOf (t_type target);
          s1 = s\<lparr>score := score s + baseScore * scoreMultiplier d * multiplier\<rparr>;
          s2 = (if t_type target = BOSS
                then s1\<lparr>scoreSinceLastBoss := scoreSinceLastBoss s1 + 50\<rparr>
                else s1\<lparr>scoreSinceLastBoss := scoreSinceLastBoss s1 + baseScore * multiplier\<rparr>);
          s3 = (if t_type target = BOSS then boss_defeated s2 else s2);
          s4 = s3\<lparr>sessionStats := kill_stats (t_type target) (sessionStats s3)\<rparr>;
          s5 = s4\<lparr>targets := splice1 i (targets s4)\<rparr>
      in if t_type target = SPLIT
         then s5\<lparr>targets :=
                  targets s5 @ [split_child rnd pj target 0, split_child rnd pj target 1]\<rparr>
         else s5)"

text \<open>The start of the colour-match branch (lines 834-846): streak, its record, shake.\<close>

definition count_hit :: "SimState \<Rightarrow> SimState" where
  "count_hit s =
     (let s1 = s\<lparr>streak := streak s + 1\<rparr>;
          st = sessionStats s1;
          s2 = (if streak s1 > highestStreak st
                then s1\<lparr>sessionStats := st\<lparr>highestStreak := streak s1\<rparr>\<rparr>
                else s1)
      in s2\<lparr>shakeTimer := 150\<rparr>)"

text \<open>The colour-match branch (lines 832-927).\<close>

definition on_match :: "Difficulty \<Rightarrow> rand \<Rightarrow> nat \<Rightarrow> nat \<Rightarrow> SimState \<Rightarrow> SimState" where
  "on_match d rnd pj i s =
     (let s3 = count_hit s;
          target = targets s3 ! i
      in if (t_type target = TOUGH \<or> t_type target = BOSS) \<and> t_health target > 1
         then damage d i s3
         else destroy d rnd pj i s3)"

text \<open>
  The colour-mismatch branch (lines 929-943). \<open>setTimeout(..., 1000)\<close> adds a timer
  of 1000 ms.
\<close>

definition on_mismatch :: "SimState \<Rightarrow> SimState" where
  "on_mismatch s =
     (let s1 = s\<lparr>streak := 0, isEnding := True, shakeTimer := 500\<rparr>;
          st = sessionStats s1;
          st1 = st\<lparr>targetsMissed := targetsMissed st + 1\<rparr>;
          st2 = st1\<lparr>totalScore := \<lfloor>score s1\<rfloor>\<rparr>;
          s2 = s1\<lparr>sessionStats := st2\<rparr>
      in s2\<lparr>handoffTimers := handoffTimers s2 @ [1000]\<rparr>)"

text \<open>
  What the timer's callback passes to \<open>onGameOver\<close> when it fires in the state \<open>s\<close>:
  \<open>Math.floor(state.score)\<close> and \<open>sessionStatsRef.current\<close>.
\<close>

definition handoff :: "SimState \<Rightarrow> int \<times> GameStats" where
  "handoff s = (\<lfloor>score s\<rfloor>, sessionStats s)"

definition deactivate :: "nat \<Rightarrow> SimState \<Rightarrow> SimState" where
  "deactivate pj s =
     s\<lparr>projectilePool := (projectilePool s)[pj := (projectilePool s ! pj)\<lparr>p_active := False\<rparr>]\<rparr>"

text \<open>One turn of \<open>for (const proj of state.projectilePool)\<close>, for the slot \<open>pj\<close>.\<close>

definition advance :: "real \<Rightarrow> Projectile \<Rightarrow> Projectile" where
  "advance tf proj = proj\<lparr>p_x := p_x proj + p_vx proj * tf, p_y := p_y proj + p_vy proj * tf\<rparr>"

definition update_projectile ::
  "Difficulty \<Rightarrow> rand \<Rightarrow> real \<Rightarrow> nat \<Rightarrow> SimState \<Rightarrow> SimState" where
  "update_projectile d rnd tf pj s =
     (let proj = projectilePool s ! pj
      in if \<not> p_active proj then s
         else
           let proj1 = advance tf proj;
               s1 = s\<lparr>projectilePool := (projectilePool s)[pj := proj1]\<rparr>
           in case find_hit proj1 (targets s1) (length (targets s1)) of
                Some i \<Rightarrow>
                  deactivate pj
                    (if p_color proj1 = t_color (targets s1 ! i)
                     then on_match d rnd pj i s1
                     else on_mismatch s1)
              | None \<Rightarrow>
                  if p_x proj1 < - 50 \<or> p_x proj1 > dim_width s1 + 50
                     \<or> p_y proj1 < - 50 \<or> p_y proj1 > dim_height s1 + 50
                  then deactivate pj s1
                  else s1)"

definition update_projectiles :: "Difficulty \<Rightarrow> rand \<Rightarrow> real \<Rightarrow> SimState \<Rightarrow> SimState" where
  "update_projectiles d rnd tf s =
     fold (update_projectile d rnd tf) [0 ..< length (projectilePool s)] s"

section \<open>The tick (animate, lines 445-969)\<close>

definition shake_step :: "real \<Rightarrow> SimState \<Rightarrow> SimState" where
  "shake_step deltaTime s =
     (if shakeTimer s > 0 then s\<lparr>shakeTimer := shakeTimer s - deltaTime\<rparr> else s)"

text \<open>
  \<open>if (!lastTimeRef.current) lastTimeRef.current = time; deltaTime = time -
  lastTimeRef.current\<close>: the time since the last frame, 0 on the first one.
\<close>

definition frameDelta :: "real \<Rightarrow> SimState \<Rightarrow> real" where
  "frameDelta tm s = tm - (if lastTime s = 0 then tm else lastTime s)"

text \<open>
  The tick after its early returns (lines 510-951), from the state \<open>s2\<close> in which the
  simulation time has advanced.
\<close>

definition playing_tick :: "Difficulty \<Rightarrow> rand \<Rightarrow> real \<Rightarrow> SimState \<Rightarrow> SimState" where
  "playing_tick d rnd deltaTime s2 =
     (let isTutorial = tutorialStep s2 > 0;
          s3 = shake_step deltaTime s2;
          s4 = (if \<not> isTutorial then spawning d rnd deltaTime s3 else s3);
          s5 = (if \<not> isTutorial then physics_logic rnd deltaTime s4 else s4);
          s6 = collisions s5
      in update_projectiles d rnd (timeFactor deltaTime) s6)"

definition animate :: "Difficulty \<Rightarrow> real \<Rightarrow> rand \<Rightarrow> SimState \<Rightarrow> SimState" where
  "animate d tm rnd s =
     (let deltaTime = frameDelta tm s;
          s1 = s\<lparr>lastTime := tm\<rparr>
      in if isGameOver s1 \<and> \<not> isEnding s1 then s1
         else if isEnding s1 then shake_step deltaTime s1
         else
           let isTutorial = tutorialStep s1 > 0;
               s2 = (if \<not> isTutorial then s1\<lparr>time := time s1 + deltaTime\<rparr> else s1)
           in if dim_width s2 = 0 \<or> dim_height s2 = 0 then s2
              else playing_tick d rnd deltaTime s2)"

section \<open>Input (handleColorSelect, lines 137-157; shoot, lines 262-342)\<close>

definition tutorial_target :: "ColorType \<Rightarrow> SimState \<Rightarrow> Target" where
  "tutorial_target c s =
     \<lparr>t_x = dim_width s / 2, t_y = dim_height s / 3, t_vx = 0, t_vy = 0,
      t_color = c, t_radius = TARGET_RADIUS, t_rotation = 0, t_rotationSpeed = 1.5,
      t_type = STATIONARY, t_shape = CIRCLE, t_health = 1,
      t_maxHealth = None, t_colorShiftTimer = None, t_initialY = None,
      t_timeOffset = None, t_summonTimer = None\<rparr>"

definition handleColorSelect :: "ColorType \<Rightarrow> SimState \<Rightarrow> SimState" where
  "handleColorSelect c s =
     (let s1 = s\<lparr>currentColor := c\<rparr>
      in if tutorialStep s1 = 1
         then s1\<lparr>tutorialStep := 2, targets := targets s1 @ [tutorial_target c s1]\<rparr>
         else s1)"

text \<open>\<open>pool.find(p => !p.active)\<close>, as the index of the slot found.\<close>

fun find_inactive :: "Projectile list \<Rightarrow> nat option" where
  "find_inactive [] = None"
| "find_inactive (p # ps) =
     (if \<not> p_active p then Some 0
      else case find_inactive ps of Some i \<Rightarrow> Some (Suc i) | None \<Rightarrow> None)"

text \<open>\<open>shoot\<close>, called at the clock value \<open>now\<close> (\<open>Date.now()\<close>).\<close>

definition shoot :: "real \<Rightarrow> real \<Rightarrow> real \<Rightarrow> SimState \<Rightarrow> SimState" where
  "shoot now targetX targetY s =
     (if tutorialStep s = 1 then s
      else if now - lastShotTime s < 150 then s
      else if isGameOver s \<or> isEnding s then s
      else if dim_width s = 0 \<or> dim_height s = 0 then s
      else if targetY > dim_height s - CONTROLS_HEIGHT then s
      else
        let shooterX = dim_width s / 2;
            shooterY = dim_height s - CONTROLS_HEIGHT - 20;
            dx = targetX - shooterX;
            dy = targetY - shooterY;
            distance = sqrt (dx * dx + dy * dy)
        in if distance < 1 then s
           else
             let speed = PROJECTILE_SPEED;
                 rawVx = (dx / distance) * speed;
                 rawVy = (dy / distance) * speed;
                 av = getAimAssistVector (currentColor s) shooterX shooterY rawVx rawVy
                        (targets s);
                 pool = (case find_inactive (projectilePool s) of
                           Some i \<Rightarrow> projectilePool s
                         | None \<Rightarrow> projectilePool s @ [pool_projectile]);
                 slot = (case find_inactive (projectilePool s) of
                           Some i \<Rightarrow> i
                         | None \<Rightarrow> length (projectilePool s));
                 projectile = (pool ! slot)
                   \<lparr>p_x := shooterX, p_y := shooterY, p_vx := a_vx av, p_vy := a_vy av,
                    p_color := currentColor s, p_active := True\<rparr>;
                 st = sessionStats s;
                 s1 = s\<lparr>projectilePool := pool[slot := projectile],
                        sessionStats := st\<lparr>shotsFired := shotsFired st + 1\<rparr>,
                        lastShotTime := now\<rparr>
             in if tutorialStep s1 = 2 then s1\<lparr>tutorialStep := 0\<rparr> else s1)"

section \<open>Sessions\<close>

text \<open>
  What can happen to a mounted game: an animation frame at a timestamp with the random
  values its calls return, a shot, a colour selection, a resize of the container, and
  the tutorial's skip button.
\<close>

datatype event =
  Frame real rand
  | Shoot real real real
  | SelectColor ColorType
  | Resize real real
  | SkipTutorial

fun step :: "Difficulty \<Rightarrow> event \<Rightarrow> SimState \<Rightarrow> SimState" where
  "step d (Frame tm rnd) s = animate d tm rnd s"
| "step d (Shoot now x y) s = shoot now x y s"
| "step d (SelectColor c) s = handleColorSelect c s"
| "step d (Resize w h) s = s\<lparr>dim_width := w, dim_height := h\<rparr>"
| "step d SkipTutorial s = s\<lparr>tutorialStep := 0\<rparr>"

definition run :: "Difficulty \<Rightarrow> event list \<Rightarrow> SimState \<Rightarrow> SimState" where
  "run d evs s = fold (step d) evs s"

inductive reachable :: "Difficulty \<Rightarrow> SimState \<Rightarrow> bool" for d :: Difficulty where
  reach_init: "reachable d (init_state d tut w h)"
| reach_step: "reachable d s \<Longrightarrow> reachable d (step d ev s)"

definition bossCount :: "Target list \<Rightarrow> nat" where
  "bossCount ts = length (filter (\<lambda>t. t_type t = BOSS) ts)"

section \<open>Auxiliary notions of the proofs\<close>


text \<open>The configuration of a trail particle, as \<open>animate\<close> passes it.\<close>

definition cfg0 :: ParticleConfig where
  "cfg0 = \<lparr>c_x = Some 1, c_y = Some 2, c_vx = Some 0, c_vy = Some 0, c_life = Some 0.25,
           c_color = Some ''#ef4444'', c_size = Some 7.2, c_type = Some TRAIL,
           c_active = None, c_rotation = None\<rparr>"


text \<open>The particle that \<open>spawnParticle cfg0\<close> leaves in a slot of the fresh pool.\<close>

definition trail0 :: Particle where
  "trail0 =
     \<lparr>q_x = 1, q_y = 2, q_vx = 0, q_vy = 0, q_life = 0.25, q_color = ''#ef4444'',
      q_size = 7.2, q_type = Some TRAIL, q_active = True, q_rotation = Some 0\<rparr>"


text \<open>The pool after \<open>n\<close> spawns of \<open>cfg0\<close> on the fresh pool.\<close>

definition spawned :: "nat \<Rightarrow> ParticleState" where
  "spawned n = fold apply_particle_op (replicate n (Spawn cfg0)) init_particles"

text \<open>
  The boss flag says whether the list holds a boss, and the list holds at most one.
\<close>

definition boss_inv :: "SimState \<Rightarrow> bool" where
  "boss_inv s = (bossCount (targets s) = (if bossActive s then 1 else 0))"

text \<open>Random values for the examples: every call of \<open>Math.random()\<close> returns 0.5.\<close>

definition rnd0 :: rand where
  "rnd0 = (\<lambda>st k. 1 / 2)"

text \<open>
  The scenario of the specification: an arena of 400 by 800, difficulty MEDIUM, one
  STATIONARY RED target at (200, 300) with radius 32, the spawn timer just reset.
\<close>

definition scenario_target :: Target where
  "scenario_target =
     \<lparr>t_x = 200, t_y = 300, t_vx = 0, t_vy = 0, t_color = RED, t_radius = 32,
      t_rotation = 0, t_rotationSpeed = 1, t_type = STATIONARY, t_shape = CIRCLE,
      t_health = 1, t_maxHealth = None, t_colorShiftTimer = Some 0, t_initialY = Some 300,
      t_timeOffset = Some 0, t_summonTimer = None\<rparr>"

definition scenario_state :: SimState where
  "scenario_state =
     (init_state MEDIUM False 400 800)
       \<lparr>targets := [scenario_target], spawnTimer := 0, nextSpawnDelay := 1600,
        lastTime := 1000\<rparr>"

text \<open>Frames at 60 per second after the timestamp 1000: the frames \<open>1, ..., n - 1\<close>.\<close>

definition scenario_frames :: "nat \<Rightarrow> event list" where
  "scenario_frames n = map (\<lambda>k. Frame (1000 + 16.667 * real k) rnd0) [1 ..< n]"

text \<open>A state whose boss-progress accumulator is above the threshold of level 1.\<close>

definition progress_state :: SimState where
  "progress_state = (init_state MEDIUM False 400 800)\<lparr>scoreSinceLastBoss := 412.5\<rparr>"

text \<open>
  A boss fight at level 1: a RED boss with one health point left, and a RED projectile
  ten pixels short of its hit range.
\<close>

definition boss_state :: SimState where
  "boss_state =
     (init_state MEDIUM False 400 800)
       \<lparr>projectilePool :=
          (replicate 50 pool_projectile)
            [0 := \<lparr>p_x = 200, p_y = 170, p_vx = 0, p_vy = - 10, p_color = RED,
                    p_radius = 12, p_active = True\<rparr>],
        targets :=
          [\<lparr>t_x = 200, t_y = 100, t_vx = 0, t_vy = 3, t_color = RED, t_radius = 60,
            t_rotation = 0, t_rotationSpeed = 1, t_type = BOSS, t_shape = STAR,
            t_health = 1, t_maxHealth = Some 15, t_colorShiftTimer = Some 0,
            t_initialY = None, t_timeOffset = None, t_summonTimer = Some 4000\<rparr>],
        bossActive := True, streak := 14\<rparr>"

text \<open>The speed and the heading of the children of a split target.\<close>

definition childSpeed :: "Target \<Rightarrow> real" where
  "childSpeed t = max 4 (sqrt (t_vx t * t_vx t + t_vy t * t_vy t) * 1.5)"

definition heading :: "Target \<Rightarrow> real" where
  "heading t = atan2 (t_vy t) (t_vx t)"

text \<open>A SPLIT target moving to the right, and a RED projectile about to hit it.\<close>

definition split_state :: SimState where
  "split_state =
     (init_state MEDIUM False 400 800)
       \<lparr>projectilePool :=
          (replicate 50 pool_projectile)
            [0 := \<lparr>p_x = 200, p_y = 330, p_vx = 0, p_vy = - 10, p_color = RED,
                    p_radius = 12, p_active = True\<rparr>],
        targets :=
          [\<lparr>t_x = 200, t_y = 300, t_vx = 1, t_vy = 0, t_color = RED, t_radius = 32,
            t_rotation = 0, t_rotationSpeed = 1, t_type = SPLIT, t_shape = CIRCLE,
            t_health = 1, t_maxHealth = None, t_colorShiftTimer = Some 0,
            t_initialY = Some 300, t_timeOffset = Some 0, t_summonTimer = None\<rparr>]\<rparr>"

text \<open>A STATIONARY target of radius 32, as an ordinary spawn makes it.\<close>

definition stationary_at :: "real \<Rightarrow> real \<Rightarrow> ColorType \<Rightarrow> Target" where
  "stationary_at x y c =
     \<lparr>t_x = x, t_y = y, t_vx = 0, t_vy = 0, t_color = c, t_radius = 32,
      t_rotation = 0, t_rotationSpeed = 1, t_type = STATIONARY, t_shape = CIRCLE,
      t_health = 1, t_maxHealth = None, t_colorShiftTimer = Some 0, t_initialY = Some y,
      t_timeOffset = Some 0, t_summonTimer = None\<rparr>"

text \<open>
  Difficulty EASY with the list at its cap of 8: seven STATIONARY targets, a RED SPLIT
  target, and a RED projectile about to hit it.
\<close>

definition cap_state :: SimState where
  "cap_state =
     (init_state EASY False 400 800)
       \<lparr>projectilePool :=
          (replicate 50 pool_projectile)
            [0 := \<lparr>p_x = 200, p_y = 330, p_vx = 0, p_vy = - 10, p_color = RED,
                    p_radius = 12, p_active = True\<rparr>],
        targets :=
          [stationary_at 50 50 BLUE, stationary_at 150 50 GREEN, stationary_at 250 50 YELLOW,
           stationary_at 350 50 BLUE, stationary_at 50 150 GREEN, stationary_at 150 150 YELLOW,
           stationary_at 250 150 BLUE,
           \<lparr>t_x = 200, t_y = 300, t_vx = 1, t_vy = 0, t_color = RED, t_radius = 32,
            t_rotation = 0, t_rotationSpeed = 1, t_type = SPLIT, t_shape = CIRCLE,
            t_health = 1, t_maxHealth = None, t_colorShiftTimer = Some 0,
            t_initialY = Some 300, t_timeOffset = Some 0, t_summonTimer = None\<rparr>],
        spawnTimer := 0, nextSpawnDelay := 2080, lastTime := 1000\<rparr>"

section \<open>Properties\<close>

subsection \<open>Time scaling\<close>

text \<open>
  C3, as the specification states it, fails: the source takes the minimum with 4 and
  has no lower clamp, so a negative elapsed time gives a negative factor.
\<close>

theorem timeFactor_negative:
  "timeFactor (- 16.667) = - 1 \<and> timeFactor (- 16.667) < 0
   \<and> timeFactor (- 16.667) \<noteq> clamp (- 16.667 / 16.667) 0 4"
  by (simp add: timeFactor_def clamp_def)

text \<open>
  C3, amended: the per-tick motion scalar is \<open>min (deltaTime / 16.667) 4\<close>. It never
  exceeds 4; it is the clamp to \<open>[0, 4]\<close>, and so never below 0, whenever the elapsed
  time is not negative, which is the case for every frame whose timestamp is not
  before the last one; for a negative elapsed time it is \<open>deltaTime / 16.667\<close>.
\<close>

theorem timeFactor_bounds:
  "timeFactor dt \<le> 4
   \<and> (0 \<le> dt \<longrightarrow> 0 \<le> timeFactor dt \<and> timeFactor dt = clamp (dt / 16.667) 0 4)
   \<and> (dt < 0 \<longrightarrow> timeFactor dt = dt / 16.667)
   \<and> (lastTime s \<le> tm \<longrightarrow> 0 \<le> frameDelta tm s)"
  by (auto simp: timeFactor_def clamp_def min_def max_def frameDelta_def)

theorem timeFactor_bounds_witness:
  "(0::real) \<le> 50 \<and> timeFactor 50 \<le> 4 \<and> 0 \<le> timeFactor 50
   \<and> timeFactor 50 = clamp (50 / 16.667) 0 4
   \<and> (- 5::real) < 0 \<and> timeFactor (- 5) = - 5 / 16.667
   \<and> lastTime (init_state MEDIUM False 400 800) \<le> 100
   \<and> 0 \<le> frameDelta 100 (init_state MEDIUM False 400 800)"
  using timeFactor_bounds[of 50 "init_state MEDIUM False 400 800" 100]
    timeFactor_bounds[of "- 5" "init_state MEDIUM False 400 800" 100]
  by (simp add: init_state_def)

subsection \<open>The particle pool\<close>













lemma spawned_state:
  "n \<le> 600 \<Longrightarrow>
   spawned n = \<lparr>particlePool = replicate n trail0 @ replicate (600 - n) pool_particle,
               particleCursor = n mod 600\<rparr>"
proof (induction n)
  case 0
  show ?case by (simp add: spawned_def init_particles_def)
next
  case (Suc n)
  then have n: "n < 600" by simp
  have "spawned (Suc n) = spawnParticle cfg0 (spawned n)"
    unfolding spawned_def by (simp add: replicate_append_same[symmetric] del: replicate_Suc)
  also have "spawned n = \<lparr>particlePool = replicate n trail0 @ replicate (600 - n) pool_particle,
               particleCursor = n\<rparr>"
    using Suc n by simp
  also have "spawnParticle cfg0 \<lparr>particlePool = replicate n trail0 @ replicate (600 - n) pool_particle,
               particleCursor = n\<rparr>
        = \<lparr>particlePool = (replicate n trail0 @ replicate (600 - n) pool_particle)[n := trail0],
           particleCursor = Suc n mod 600\<rparr>"
    using n by (simp add: spawnParticle_def Let_def nth_append assign_particle_def cfg0_def
        pool_particle_def trail0_def)
  also have "(replicate n trail0 @ replicate (600 - n) pool_particle)[n := trail0]
        = replicate (Suc n) trail0 @ replicate (600 - Suc n) pool_particle"
  proof -
    have "replicate (600 - n) pool_particle = pool_particle # replicate (600 - Suc n) pool_particle"
      using n by (metis Suc_diff_Suc replicate_Suc)
    then show ?thesis
      by (simp add: list_update_append replicate_append_same)
  qed
  finally show ?case .
qed


lemma spawned_full: "active_particles (spawned 600) = 600 \<and> particleCursor (spawned 600) = 0"
  by (simp add: spawned_state active_particles_def trail0_def)






subsection \<open>At most one boss\<close>

lemma bossCount_append: "bossCount (xs @ ys) = bossCount xs + bossCount ys"
  by (simp add: bossCount_def)

lemma bossCount_map: "bossCount zs = length (filter (\<lambda>k. k = BOSS) (map t_type zs))"
  by (induction zs) (simp_all add: bossCount_def)

lemma bossCount_types: "map t_type xs = map t_type ys \<Longrightarrow> bossCount xs = bossCount ys"
  unfolding bossCount_map by simp

lemma boss_inv_frame:
  "targets s' = targets s \<Longrightarrow> bossActive s' = bossActive s \<Longrightarrow> boss_inv s' = boss_inv s"
  by (simp add: boss_inv_def)

lemma bossCount_filter_indexed: "bossCount (filter_indexed P i ts) \<le> bossCount ts"
proof (induction ts arbitrary: i)
  case Nil
  then show ?case by simp
next
  case (Cons a ts)
  from Cons[of "Suc i"] show ?case by (simp add: bossCount_def)
qed

lemma boss_target_type: "t_type (boss_target d rnd s) = BOSS"
  by (simp add: boss_target_def)

lemma boss_trigger_inv: "boss_inv s \<Longrightarrow> boss_inv (boss_trigger d rnd s)"
proof -
  assume inv: "boss_inv s"
  show ?thesis
  proof (cases "\<not> bossActive s \<and> scoreSinceLastBoss s > pointsForNextLevel s")
    case True
    then have "bossCount (targets s) = 0" using inv by (simp add: boss_inv_def)
    then have "bossCount (filter_indexed (\<lambda>i. rnd BossFilter i > 0.6) 0 (targets s)) = 0"
      using bossCount_filter_indexed[of "\<lambda>i. rnd BossFilter i > 0.6" 0 "targets s"] by simp
    then show ?thesis using True
      by (simp add: boss_trigger_def Let_def boss_inv_def bossCount_append)
        (simp add: bossCount_def boss_target_type)
  next
    case False
    then show ?thesis using inv by (auto simp add: boss_trigger_def)
  qed
qed

lemma roll_type_not_boss: "roll_type d rnd s \<noteq> BOSS"
  by (simp add: roll_type_def Let_def)

lemma new_target_type: "t_type (new_target d rnd s x y) = roll_type d rnd s"
  by (simp add: new_target_def Let_def)

lemma ordinary_spawn_inv: "boss_inv s \<Longrightarrow> boss_inv (ordinary_spawn d rnd s)"
  by (simp add: ordinary_spawn_def Let_def boss_inv_def bossCount_append)
    (simp add: bossCount_def new_target_type roll_type_not_boss)

lemma if_either: "(if c then a else b) = b \<or> (if c then a else b) = a"
  by simp

lemma spawn_timer_inv:
  assumes inv: "boss_inv s"
  shows "boss_inv (spawn_timer d rnd dt s)"
proof -
  let ?s1 = "s\<lparr>spawnTimer := spawnTimer s + dt\<rparr>"
  let ?s2 = "?s1\<lparr>spawnTimer := 0,
                 nextSpawnDelay := baseSpawnInterval ?s1 * (0.6 + rnd Interval 0 * 0.8)\<rparr>"
  have a: "boss_inv ?s1" using inv by (simp add: boss_inv_def)
  have "boss_inv ?s2" using inv by (simp add: boss_inv_def)
  then have b: "boss_inv (ordinary_spawn d rnd ?s2)" by (rule ordinary_spawn_inv)
  have "spawn_timer d rnd dt s = ?s1 \<or> spawn_timer d rnd dt s = ordinary_spawn d rnd ?s2"
    unfolding spawn_timer_def Let_def by (rule if_either)
  with a b show ?thesis by auto
qed

lemma spawning_inv: "boss_inv s \<Longrightarrow> boss_inv (spawning d rnd dt s)"
  by (simp add: spawning_def spawn_timer_inv boss_trigger_inv)


lemma bossCount_none: "\<forall>t\<in>set xs. t_type t \<noteq> BOSS \<Longrightarrow> bossCount xs = 0"
  by (induction xs) (simp_all add: bossCount_def)

lemma speed_milestone_frame:
  "targets (speed_milestone s) = targets s \<and> bossActive (speed_milestone s) = bossActive s"
  by (simp add: speed_milestone_def Let_def)

lemma color_shift_type: "t_type (color_shift rnd dt i t) = t_type t"
  by (simp add: color_shift_def Let_def)

lemma minion_type: "t_type (minion rnd i t k) = NORMAL"
  by (simp add: minion_def Let_def)

lemma boss_update_type: "t_type (fst (boss_update rnd dt ph i t)) = t_type t"
  by (simp add: boss_update_def Let_def color_shift_type)

lemma boss_update_minions: "\<forall>m\<in>set (snd (boss_update rnd dt ph i t)). t_type m \<noteq> BOSS"
  by (auto simp add: boss_update_def Let_def minion_type)

lemma move_target_type: "t_type (move_target tf tm t) = t_type t"
  by (simp add: move_target_def Let_def)

lemma update_target_type: "t_type (fst (update_target rnd dt tf ph tm i t)) = t_type t"
  by (simp add: update_target_def Let_def split_beta move_target_type boss_update_type
      color_shift_type)

lemma update_target_minions:
  "\<forall>m\<in>set (snd (update_target rnd dt tf ph tm i t)). t_type m \<noteq> BOSS"
  using boss_update_minions[of rnd dt ph i t]
  by (simp add: update_target_def Let_def split_beta)

lemma update_targets_from:
  "bossCount (map fst (map (\<lambda>(i, t). update_target rnd dt tf ph tm i t) (enumerate n ts))) =
     bossCount ts
   \<and> bossCount (concat (map snd (map (\<lambda>(i, t). update_target rnd dt tf ph tm i t)
        (enumerate n ts)))) = 0"
proof (induction ts arbitrary: n)
  case Nil
  show ?case by (simp add: bossCount_def)
next
  case (Cons a ts)
  have m: "bossCount (snd (update_target rnd dt tf ph tm n a)) = 0"
    by (rule bossCount_none[OF update_target_minions])
  have t: "(t_type (fst (update_target rnd dt tf ph tm n a)) = BOSS) = (t_type a = BOSS)"
    by (simp add: update_target_type)
  have hd: "bossCount [fst (update_target rnd dt tf ph tm n a)] = bossCount [a]"
    using t by (simp add: bossCount_def)
  from Cons[of "Suc n"] m hd show ?case
    using bossCount_append[of "[fst (update_target rnd dt tf ph tm n a)]"]
      bossCount_append[of "[a]" ts]
    by (simp add: bossCount_append)
qed

lemma update_targets_bossCount:
  "bossCount (update_targets rnd dt tf ph tm ts) = bossCount ts"
  unfolding update_targets_def Let_def
  using update_targets_from[of rnd dt tf ph tm 0 ts]
  by (simp add: bossCount_append)

lemma physics_logic_inv: "boss_inv s \<Longrightarrow> boss_inv (physics_logic rnd dt s)"
  using speed_milestone_frame[of s]
  by (simp add: physics_logic_def Let_def boss_inv_def update_targets_bossCount)

lemma collide_pair_types:
  "t_type (fst (collide_pair a b)) = t_type a \<and> t_type (snd (collide_pair a b)) = t_type b"
  by (simp add: collide_pair_def Let_def)

lemma map_update_same: "(map f ts)[k := f (ts ! k)] = map f ts"
  by (simp add: map_update[symmetric])

lemma collide_at_types: "map t_type (collide_at i j ts) = map t_type ts"
proof -
  have "map t_type (collide_at i j ts) =
          (map t_type ts)[i := t_type (ts ! i), j := t_type (ts ! j)]"
    using collide_pair_types[of "ts ! i" "ts ! j"]
    by (simp add: collide_at_def split_beta map_update)
  also have "\<dots> = map t_type ts"
    by (simp only: map_update_same)
  finally show ?thesis .
qed

lemma collide_fold_types:
  "map t_type (fold (\<lambda>(i, j). collide_at i j) ps ts) = map t_type ts"
proof (induction ps arbitrary: ts)
  case Nil
  show ?case by simp
next
  case (Cons p ps)
  obtain i j where p: "p = (i, j)" by (cases p)
  show ?case using Cons[of "collide_at i j ts"] by (simp add: p collide_at_types)
qed

lemma collide_all_types: "map t_type (collide_all ts) = map t_type ts"
proof -
  have "length (map t_type (collide_all ts)) = length (map t_type ts)"
    unfolding collide_all_def by (simp only: collide_fold_types)
  show ?thesis unfolding collide_all_def by (rule collide_fold_types)
qed

lemma wall_types: "t_type (wall_y ph (wall_x w t)) = t_type t"
  by (simp add: wall_x_def wall_y_def)

lemma physics_step_types: "map t_type (physics_step w ph ts) = map t_type ts"
proof -
  have "map t_type (physics_step w ph ts) = map t_type (collide_all ts)"
    by (simp add: physics_step_def wall_types comp_def)
  then show ?thesis by (simp add: collide_all_types)
qed

lemma collisions_inv: "boss_inv s \<Longrightarrow> boss_inv (collisions s)"
proof -
  assume inv: "boss_inv s"
  have "map t_type (targets (collisions s)) = map t_type (targets s)"
    by (simp add: collisions_def physics_step_types)
  then have "bossCount (targets (collisions s)) = bossCount (targets s)"
    by (rule bossCount_types)
  moreover have "bossActive (collisions s) = bossActive s" by (simp add: collisions_def)
  ultimately show ?thesis using inv by (simp add: boss_inv_def)
qed


lemma find_hit_Some: "find_hit p ts n = Some i \<Longrightarrow> i < n \<and> in_range p (ts ! i)"
  by (induction n) (auto split: if_splits)

lemma find_hit_first:
  "find_hit p ts n = Some i \<Longrightarrow> i < j \<Longrightarrow> j < n \<Longrightarrow> \<not> in_range p (ts ! j)"
  by (induction n) (auto split: if_splits simp: less_Suc_eq)

lemma bossCount_splice1:
  assumes "i < length ts"
  shows "bossCount (splice1 i ts) + (if t_type (ts ! i) = BOSS then 1 else 0) = bossCount ts"
proof -
  have "ts = take i ts @ ts ! i # drop (Suc i) ts"
    using assms by (rule id_take_nth_drop)
  then have "bossCount ts = bossCount (take i ts) + bossCount [ts ! i] + bossCount (drop (Suc i) ts)"
    by (metis append_Cons append_Nil bossCount_append add.assoc)
  then show ?thesis
    by (simp add: splice1_def bossCount_append bossCount_def)
qed

lemma count_hit_frame:
  "targets (count_hit s) = targets s \<and> bossActive (count_hit s) = bossActive s"
  by (simp add: count_hit_def Let_def)

lemma damage_inv:
  assumes "boss_inv s"
  shows "boss_inv (damage d i s)"
proof -
  have t: "targets (damage d i s) =
             (targets s)[i := (targets s ! i)\<lparr>t_health := t_health (targets s ! i) - 1\<rparr>]"
    by (simp add: damage_def Let_def)
  have "map t_type (targets (damage d i s)) = (map t_type (targets s))[i := t_type (targets s ! i)]"
    unfolding t by (simp add: map_update)
  then have "map t_type (targets (damage d i s)) = map t_type (targets s)"
    by (simp only: map_update_same)
  then have "bossCount (targets (damage d i s)) = bossCount (targets s)"
    by (rule bossCount_types)
  moreover have "bossActive (damage d i s) = bossActive s"
    by (simp add: damage_def Let_def)
  ultimately show ?thesis using assms by (simp add: boss_inv_def)
qed

lemma split_child_type: "t_type (split_child rnd pj t k) = NORMAL"
  by (simp add: split_child_def Let_def)

lemma boss_defeated_frame:
  "targets (boss_defeated s) = targets s \<and> \<not> bossActive (boss_defeated s)"
  by (simp add: boss_defeated_def Let_def)

lemma destroy_targets:
  "targets (destroy d rnd pj i s) =
     splice1 i (targets s)
       @ (if t_type (targets s ! i) = SPLIT
          then [split_child rnd pj (targets s ! i) 0, split_child rnd pj (targets s ! i) 1]
          else [])"
  by (simp add: destroy_def Let_def boss_defeated_frame)

lemma destroy_bossActive:
  "bossActive (destroy d rnd pj i s) =
     (if t_type (targets s ! i) = BOSS then False else bossActive s)"
  by (simp add: destroy_def Let_def boss_defeated_frame)

lemma destroy_inv:
  assumes inv: "boss_inv s" and i: "i < length (targets s)"
  shows "boss_inv (destroy d rnd pj i s)"
proof -
  have c: "bossCount (targets (destroy d rnd pj i s)) = bossCount (splice1 i (targets s))"
    by (simp add: destroy_targets bossCount_append) (simp add: bossCount_def split_child_type)
  show ?thesis
  proof (cases "t_type (targets s ! i) = BOSS")
    case True
    with bossCount_splice1[OF i] have "bossCount (splice1 i (targets s)) + 1 = bossCount (targets s)"
      by simp
    moreover have "bossCount (targets s) \<le> 1" using inv by (simp add: boss_inv_def)
    ultimately have "bossCount (splice1 i (targets s)) = 0" by simp
    then show ?thesis using c True by (simp add: boss_inv_def destroy_bossActive)
  next
    case False
    with bossCount_splice1[OF i] have "bossCount (splice1 i (targets s)) = bossCount (targets s)"
      by simp
    then show ?thesis using c False inv by (simp add: boss_inv_def destroy_bossActive)
  qed
qed

lemma on_match_inv:
  assumes inv: "boss_inv s" and i: "i < length (targets s)"
  shows "boss_inv (on_match d rnd pj i s)"
proof -
  have a: "boss_inv (count_hit s)"
    using inv count_hit_frame[of s] by (simp add: boss_inv_def)
  have b: "i < length (targets (count_hit s))" using i count_hit_frame[of s] by simp
  have "on_match d rnd pj i s = damage d i (count_hit s)
        \<or> on_match d rnd pj i s = destroy d rnd pj i (count_hit s)"
    unfolding on_match_def Let_def by (rule if_either[THEN disj_commute[THEN iffD1]])
  then show ?thesis using damage_inv[OF a] destroy_inv[OF a b] by auto
qed

lemma on_mismatch_frame:
  "targets (on_mismatch s) = targets s \<and> bossActive (on_mismatch s) = bossActive s"
  by (simp add: on_mismatch_def Let_def)

lemma deactivate_frame:
  "targets (deactivate pj s) = targets s \<and> bossActive (deactivate pj s) = bossActive s"
  by (simp add: deactivate_def)

lemma update_projectile_inv:
  assumes inv: "boss_inv s"
  shows "boss_inv (update_projectile d rnd tf pj s)"
proof (cases "p_active (projectilePool s ! pj)")
  case False
  then show ?thesis using inv by (simp add: update_projectile_def Let_def)
next
  case True
  let ?proj1 = "advance tf (projectilePool s ! pj)"
  let ?s1 = "s\<lparr>projectilePool := (projectilePool s)[pj := ?proj1]\<rparr>"
  have inv1: "boss_inv ?s1" using inv by (simp add: boss_inv_def)
  have ts1: "targets ?s1 = targets s" by simp
  show ?thesis
  proof (cases "find_hit ?proj1 (targets s) (length (targets s))")
    case None
    have "boss_inv (deactivate pj ?s1)"
      using inv1 deactivate_frame[of pj ?s1] by (simp add: boss_inv_def)
    then show ?thesis using True None inv1
      by (simp add: update_projectile_def Let_def)
  next
    case (Some i)
    then have i: "i < length (targets ?s1)" using find_hit_Some[OF Some] by simp
    have m: "boss_inv (on_match d rnd pj i ?s1)" by (rule on_match_inv[OF inv1 i])
    have mm: "boss_inv (on_mismatch ?s1)"
      using inv1 on_mismatch_frame[of ?s1] by (simp add: boss_inv_def)
    have dm: "boss_inv (deactivate pj (on_match d rnd pj i ?s1))"
      using m deactivate_frame[of pj "on_match d rnd pj i ?s1"] by (simp add: boss_inv_def)
    have dmm: "boss_inv (deactivate pj (on_mismatch ?s1))"
      using mm deactivate_frame[of pj "on_mismatch ?s1"] by (simp add: boss_inv_def)
    show ?thesis using True Some dm dmm
      by (simp add: update_projectile_def Let_def)
  qed
qed

lemma fold_update_projectile_inv:
  "boss_inv s \<Longrightarrow> boss_inv (fold (update_projectile d rnd tf) ks s)"
  by (induction ks arbitrary: s) (simp_all add: update_projectile_inv)

lemma update_projectiles_inv: "boss_inv s \<Longrightarrow> boss_inv (update_projectiles d rnd tf s)"
  by (simp add: update_projectiles_def fold_update_projectile_inv)


lemma shake_step_frame:
  "targets (shake_step dt s) = targets s \<and> bossActive (shake_step dt s) = bossActive s"
  by (simp add: shake_step_def)

lemma shake_step_inv: "boss_inv s \<Longrightarrow> boss_inv (shake_step dt s)"
  using shake_step_frame[of dt s] by (simp add: boss_inv_def)

lemma playing_tick_inv:
  assumes "boss_inv s"
  shows "boss_inv (playing_tick d rnd dt s)"
proof -
  let ?s3 = "shake_step dt s"
  have 3: "boss_inv ?s3" using assms by (rule shake_step_inv)
  show ?thesis
  proof (cases "tutorialStep s > 0")
    case True
    then have "playing_tick d rnd dt s = update_projectiles d rnd (timeFactor dt) (collisions ?s3)"
      by (simp add: playing_tick_def Let_def)
    then show ?thesis using 3 by (simp add: update_projectiles_inv collisions_inv)
  next
    case False
    then have "playing_tick d rnd dt s =
        update_projectiles d rnd (timeFactor dt)
          (collisions (physics_logic rnd dt (spawning d rnd dt ?s3)))"
      by (simp add: playing_tick_def Let_def)
    then show ?thesis using 3
      by (simp add: update_projectiles_inv collisions_inv physics_logic_inv spawning_inv)
  qed
qed

lemma animate_cases:
  "animate d tm rnd s = s\<lparr>lastTime := tm\<rparr>
   \<or> animate d tm rnd s = shake_step (frameDelta tm s) (s\<lparr>lastTime := tm\<rparr>)
   \<or> animate d tm rnd s = s\<lparr>lastTime := tm, time := time s + frameDelta tm s\<rparr>
   \<or> animate d tm rnd s = playing_tick d rnd (frameDelta tm s) (s\<lparr>lastTime := tm\<rparr>)
   \<or> animate d tm rnd s =
       playing_tick d rnd (frameDelta tm s) (s\<lparr>lastTime := tm, time := time s + frameDelta tm s\<rparr>)"
  by (simp add: animate_def Let_def)

lemma animate_inv:
  assumes inv: "boss_inv s"
  shows "boss_inv (animate d tm rnd s)"
proof -
  have a: "boss_inv (s\<lparr>lastTime := tm\<rparr>)" using inv by (simp add: boss_inv_def)
  have b: "boss_inv (s\<lparr>lastTime := tm, time := time s + frameDelta tm s\<rparr>)"
    using inv by (simp add: boss_inv_def)
  from animate_cases[of d tm rnd s] show ?thesis
    using a b shake_step_inv[OF a] playing_tick_inv[OF a] playing_tick_inv[OF b]
    by (elim disjE) simp_all
qed

lemma shoot_frame:
  "targets (shoot now x y s) = targets s \<and> bossActive (shoot now x y s) = bossActive s"
  by (simp add: shoot_def Let_def)

lemma handleColorSelect_inv: "boss_inv s \<Longrightarrow> boss_inv (handleColorSelect c s)"
  by (simp add: handleColorSelect_def Let_def boss_inv_def bossCount_append)
    (simp add: bossCount_def tutorial_target_def)

lemma step_inv: "boss_inv s \<Longrightarrow> boss_inv (step d ev s)"
proof (cases ev)
  case (Frame tm rnd)
  assume "boss_inv s"
  then show ?thesis using Frame by (simp add: animate_inv)
next
  case (Shoot now x y)
  assume "boss_inv s"
  then show ?thesis using Shoot shoot_frame[of now x y s] by (simp add: boss_inv_def)
next
  case (SelectColor c)
  assume "boss_inv s"
  then show ?thesis using SelectColor by (simp add: handleColorSelect_inv)
next
  case (Resize w h)
  assume "boss_inv s"
  then show ?thesis using Resize by (simp add: boss_inv_def)
next
  case SkipTutorial
  assume "boss_inv s"
  then show ?thesis using SkipTutorial by (simp add: boss_inv_def)
qed

lemma init_inv: "boss_inv (init_state d tut w h)"
  by (simp add: boss_inv_def init_state_def bossCount_def)

lemma reachable_inv: "reachable d s \<Longrightarrow> boss_inv s"
  by (induction rule: reachable.induct) (simp_all add: init_inv step_inv)

subsection \<open>Evaluating ticks on concrete states\<close>

lemma in_range_iff:
  "in_range proj target =
     (0 < t_radius target + 8
      \<and> (p_x proj - t_x target) * (p_x proj - t_x target)
          + (p_y proj - t_y target) * (p_y proj - t_y target)
        < (t_radius target + 8) * (t_radius target + 8))"
proof -
  let ?a = "(p_x proj - t_x target) * (p_x proj - t_x target)
          + (p_y proj - t_y target) * (p_y proj - t_y target)"
  let ?b = "t_radius target + 8"
  have a0: "0 \<le> ?a" by simp
  show ?thesis
  proof (cases "0 < ?b")
    case True
    have "sqrt ?a < ?b \<longleftrightarrow> sqrt ?a < sqrt (?b * ?b)" using True by simp
    also have "\<dots> \<longleftrightarrow> ?a < ?b * ?b" by (rule real_sqrt_less_iff)
    finally show ?thesis using True by (simp add: in_range_def Let_def)
  next
    case False
    have "0 \<le> sqrt ?a" using a0 by simp
    with False have "\<not> sqrt ?a < ?b" by linarith
    with False show ?thesis by (simp add: in_range_def Let_def)
  qed
qed

lemma sqrt_100: "sqrt 100 = 10"
  using real_sqrt_abs2[of 10] by simp

lemma sqrt_144400: "sqrt 144400 = 380"
  using real_sqrt_abs2[of 380] by simp

lemma find_inactive_replicate:
  "0 < n \<Longrightarrow> \<not> p_active p \<Longrightarrow> find_inactive (replicate n p) = Some 0"
  by (cases n) simp_all

lemma update_projectile_inactive:
  "\<not> p_active (projectilePool s ! pj) \<Longrightarrow> update_projectile d rnd tf pj s = s"
  by (simp add: update_projectile_def Let_def)

lemma fold_inactive:
  "\<forall>k\<in>set ks. \<not> p_active (projectilePool s ! k) \<Longrightarrow>
   fold (update_projectile d rnd tf) ks s = s"
  by (induction ks) (simp_all add: update_projectile_inactive)

lemma update_projectiles_inactive:
  "\<forall>p\<in>set (projectilePool s). \<not> p_active p \<Longrightarrow> update_projectiles d rnd tf s = s"
  unfolding update_projectiles_def by (rule fold_inactive) simp

lemma index_pairs_1: "index_pairs (Suc 0) = []"
  by (simp add: index_pairs_def)

lemma upt_from_1:
  "[Suc 0 ..< numeral n] = (if Suc 0 < numeral n then Suc 0 # [2 ..< numeral n] else [])"
  by (simp add: upt_rec[of "Suc 0"] numeral_2_eq_2)

lemma pool_of_damage: "projectilePool (damage d i s) = projectilePool s"
  by (simp add: damage_def Let_def)

lemma pool_of_boss_defeated: "projectilePool (boss_defeated s) = projectilePool s"
  by (simp add: boss_defeated_def Let_def)

lemma pool_of_destroy: "projectilePool (destroy d rnd pj i s) = projectilePool s"
  by (simp add: destroy_def Let_def pool_of_boss_defeated)

lemma pool_of_count_hit: "projectilePool (count_hit s) = projectilePool s"
  by (simp add: count_hit_def Let_def)

lemma pool_of_on_match: "projectilePool (on_match d rnd pj i s) = projectilePool s"
  by (simp add: on_match_def Let_def pool_of_damage pool_of_destroy pool_of_count_hit)

lemma pool_of_on_mismatch: "projectilePool (on_mismatch s) = projectilePool s"
  by (simp add: on_mismatch_def Let_def)

lemma update_projectile_other:
  "k \<noteq> pj \<Longrightarrow> projectilePool (update_projectile d rnd tf pj s) ! k = projectilePool s ! k"
  by (simp add: update_projectile_def Let_def deactivate_def pool_of_on_match
      pool_of_on_mismatch split: option.split)

text \<open>With every slot but the first inactive, the projectile loop is its first turn.\<close>

lemma update_projectiles_slot0:
  assumes n: "0 < length (projectilePool s)"
    and rest: "\<forall>k. 0 < k \<and> k < length (projectilePool s) \<longrightarrow> \<not> p_active (projectilePool s ! k)"
  shows "update_projectiles d rnd tf s = update_projectile d rnd tf 0 s"
proof -
  let ?n = "length (projectilePool s)"
  let ?s' = "update_projectile d rnd tf 0 s"
  have "[0 ..< ?n] = 0 # [Suc 0 ..< ?n]" using n by (simp add: upt_conv_Cons)
  then have "update_projectiles d rnd tf s = fold (update_projectile d rnd tf) [Suc 0 ..< ?n] ?s'"
    by (simp add: update_projectiles_def)
  moreover have "\<forall>k\<in>set [Suc 0 ..< ?n]. \<not> p_active (projectilePool ?s' ! k)"
    using rest by (simp add: update_projectile_other)
  ultimately show ?thesis by (simp add: fold_inactive)
qed

text \<open>
  The definitions with their \<open>let\<close>s unfolded, for the simplifier to run them on
  concrete states from the inside out.
\<close>

lemmas shoot_eval =
  shoot_def[unfolded Let_def] getAimAssistVector_def[unfolded Let_def]
  aim_step_def[unfolded Let_def] blend_def[unfolded Let_def] distTo_def[unfolded Let_def]
  angleDiffTo_def[unfolded Let_def] init_state_def CONTROLS_HEIGHT_def PROJECTILE_SPEED_def
  atan2_def aim_init_def below_min_def ASSIST_CONE_ANGLE_def ASSIST_STRENGTH_def
  pool_projectile_def PROJECTILE_RADIUS_def find_inactive_replicate init_stats_def

lemmas frame_eval =
  animate_def[unfolded playing_tick_def Let_def] frameDelta_def shake_step_def spawning_def
  boss_trigger_def[unfolded Let_def] pointsForNextLevel_def POINTS_PER_LEVEL_def
  spawn_timer_def[unfolded Let_def] physics_logic_def[unfolded Let_def]
  speed_milestone_def[unfolded Let_def] update_targets_def[unfolded Let_def]
  update_target_def[unfolded Let_def] move_target_def[unfolded Let_def] timeFactor_def
  collisions_def physics_step_def collide_all_def wall_x_def wall_y_def
  playableHeight_def CONTROLS_HEIGHT_def or0_def
  update_projectile_def[unfolded Let_def] advance_def in_range_iff
  on_match_def[unfolded Let_def] count_hit_def[unfolded Let_def] destroy_def[unfolded Let_def]
  damage_def[unfolded Let_def] on_mismatch_def[unfolded Let_def] deactivate_def
  baseScoreOf_def streakMultiplier_def[unfolded Let_def] kill_stats_def[unfolded Let_def]
  splice1_def boss_defeated_def[unfolded Let_def]

lemmas spawn_eval =
  ordinary_spawn_def[unfolded Let_def] currentMaxTargets_def calculatedMax_def
  TARGET_RADIUS_def new_target_def[unfolded Let_def] roll_type_def[unfolded Let_def]
  specialChance_def availableShapes_def pick_def COLOR_KEYS_def TARGET_SPEED_BASE_def
  SPAWN_INTERVAL_START_def

subsection \<open>The scenario\<close>

lemma scenario_shot:
  "projectilePool (shoot 2000 200 300 scenario_state) ! 0 =
     \<lparr>p_x = 200, p_y = 680, p_vx = 0, p_vy = - 10, p_color = RED, p_radius = 12,
      p_active = True\<rparr>"
  by (simp add: shoot_eval scenario_state_def scenario_target_def sqrt_100 sqrt_144400)

lemma scenario_run:
  "(let s2 = run MEDIUM (scenario_frames 36) (shoot 2000 200 300 scenario_state)
    in targets s2 = [] \<and> score s2 = 22.5 \<and> streak s2 = 1 \<and> level s2 = 1
       \<and> stationaryKills (sessionStats s2) = 1 \<and> targetsHit (sessionStats s2) = 1
       \<and> \<not> isEnding s2)"
  unfolding run_def scenario_frames_def
  by (simp add: shoot_eval frame_eval scenario_state_def scenario_target_def sqrt_100
      sqrt_144400 upt_from_1 rnd0_def index_pairs_1 update_projectiles_slot0)

lemma scenario_start:
  "score scenario_state = 0 \<and> level scenario_state = 1 \<and> streak scenario_state = 0
   \<and> targets scenario_state = [scenario_target] \<and> dim_width scenario_state = 400
   \<and> dim_height scenario_state = 800 \<and> currentColor scenario_state = RED"
  by (simp add: scenario_state_def init_state_def)

text \<open>
  C1, as the specification states it, fails: the base score of a STATIONARY target is
  15, not 10, so the shot adds 22.5 to the score, not 15.
\<close>

theorem scenario_score_not_15:
  "score (run MEDIUM (scenario_frames 36) (shoot 2000 200 300 scenario_state))
     - score scenario_state \<noteq> 10 * 1.5 * 1"
  using scenario_run scenario_start by (simp add: Let_def)

text \<open>
  C1, amended: in the arena of 400 by 800 with difficulty MEDIUM and a single STATIONARY
  RED target at (200, 300) of radius 32, a shot at (200, 300) with RED selected puts a
  RED projectile at (200, 680) with velocity (0, -10); after 35 frames at 60 per second
  the target is destroyed, the score has grown by exactly 15 * 1.5 * 1 = 22.5 (base 15
  for STATIONARY, MEDIUM multiplier 1.5, streak multiplier 1), the streak is 1 and the
  level is unchanged.
\<close>

theorem scenario_stationary_hit:
  "projectilePool (shoot 2000 200 300 scenario_state) ! 0 =
     \<lparr>p_x = 200, p_y = 680, p_vx = 0, p_vy = - 10, p_color = RED, p_radius = 12,
      p_active = True\<rparr>
   \<and> targets scenario_state = [scenario_target]
   \<and> targets (run MEDIUM (scenario_frames 36) (shoot 2000 200 300 scenario_state)) = []
   \<and> score (run MEDIUM (scenario_frames 36) (shoot 2000 200 300 scenario_state))
       - score scenario_state = TARGET_SCORES STATIONARY * scoreMultiplier MEDIUM * 1
   \<and> score (run MEDIUM (scenario_frames 36) (shoot 2000 200 300 scenario_state))
       - score scenario_state = 22.5
   \<and> streak (run MEDIUM (scenario_frames 36) (shoot 2000 200 300 scenario_state)) = 1
   \<and> level (run MEDIUM (scenario_frames 36) (shoot 2000 200 300 scenario_state))
       = level scenario_state"
  using scenario_run scenario_start scenario_shot by (simp add: Let_def)

lemma reachable_run: "reachable d s \<Longrightarrow> reachable d (run d evs s)"
  unfolding run_def
  by (induction evs arbitrary: s) (simp_all add: reach_step)

lemma first_frame:
  "(let s1 = run MEDIUM [Frame 16 rnd0] (init_state MEDIUM False 400 800)
    in length (targets s1) = 1 \<and> t_type (targets s1 ! 0) = NORMAL \<and> \<not> bossActive s1
       \<and> bossCount (targets s1) = 0)"
  unfolding run_def
  by (simp add: frame_eval spawn_eval init_state_def rnd0_def update_projectiles_inactive
      index_pairs_1 pool_projectile_def bossCount_def)

text \<open>
  C5: in every reachable state of a session the target list holds at most one BOSS,
  and it holds one exactly when the boss-active flag is set. So a step can add a boss
  only from a state whose flag is clear, to a state whose flag is set, and can clear the
  flag only by removing the boss.
\<close>

theorem boss_unique:
  "reachable d s \<Longrightarrow>
     bossCount (targets s) \<le> 1 \<and> bossCount (targets s) = (if bossActive s then 1 else 0)"
proof -
  assume "reachable d s"
  then have "boss_inv s" by (rule reachable_inv)
  then show ?thesis by (simp add: boss_inv_def)
qed

theorem boss_unique_witness:
  "reachable MEDIUM (run MEDIUM [Frame 16 rnd0] (init_state MEDIUM False 400 800))
   \<and> length (targets (run MEDIUM [Frame 16 rnd0] (init_state MEDIUM False 400 800))) = 1
   \<and> bossCount (targets (run MEDIUM [Frame 16 rnd0] (init_state MEDIUM False 400 800))) \<le> 1
   \<and> bossCount (targets (run MEDIUM [Frame 16 rnd0] (init_state MEDIUM False 400 800))) = 0
   \<and> \<not> bossActive (run MEDIUM [Frame 16 rnd0] (init_state MEDIUM False 400 800))"
proof -
  have r: "reachable MEDIUM (run MEDIUM [Frame 16 rnd0] (init_state MEDIUM False 400 800))"
    by (rule reachable_run[OF reach_init])
  from boss_unique[OF r] first_frame r show ?thesis by (simp add: Let_def)
qed

lemma boss_steps:
  assumes "reachable d s"
  shows "(bossCount (targets s) < bossCount (targets (step d ev s))
            \<longrightarrow> \<not> bossActive s \<and> bossActive (step d ev s))
         \<and> (bossActive s \<and> \<not> bossActive (step d ev s)
            \<longrightarrow> bossCount (targets s) = 1 \<and> bossCount (targets (step d ev s)) = 0)"
proof -
  have a: "boss_inv s" using assms by (rule reachable_inv)
  have b: "boss_inv (step d ev s)" using a by (rule step_inv)
  show ?thesis using a b by (auto simp: boss_inv_def split: if_splits)
qed

subsection \<open>The boss trigger\<close>

lemma spawn_timer_progress:
  "scoreSinceLastBoss (spawn_timer d rnd dt s) = scoreSinceLastBoss s"
  by (simp add: spawn_timer_def ordinary_spawn_def Let_def)

lemma physics_logic_progress:
  "scoreSinceLastBoss (physics_logic rnd dt s) = scoreSinceLastBoss s"
  by (simp add: physics_logic_def speed_milestone_def Let_def)

lemma collisions_progress: "scoreSinceLastBoss (collisions s) = scoreSinceLastBoss s"
  by (simp add: collisions_def)

text \<open>
  C10: when the boss trigger fires (no boss active and the accumulator above the level's
  threshold), it sets the accumulator to 0 as it spawns the boss, whatever the excess
  over the threshold was; the accumulator is still 0 after the spawning, motion and
  collision steps of that tick, so the hits of the boss fight count from 0.
\<close>

theorem boss_trigger_resets_progress:
  "\<not> bossActive s \<Longrightarrow> scoreSinceLastBoss s > pointsForNextLevel s \<Longrightarrow>
     scoreSinceLastBoss (boss_trigger d rnd s) = 0
     \<and> bossActive (boss_trigger d rnd s)
     \<and> t_type (last (targets (boss_trigger d rnd s))) = BOSS
     \<and> scoreSinceLastBoss (spawning d rnd dt s) = 0
     \<and> scoreSinceLastBoss (collisions (physics_logic rnd dt (spawning d rnd dt s))) = 0"
  by (simp add: spawning_def spawn_timer_progress physics_logic_progress collisions_progress)
    (simp add: boss_trigger_def Let_def boss_target_def)

theorem boss_trigger_resets_progress_witness:
  "\<not> bossActive progress_state
   \<and> scoreSinceLastBoss progress_state = 412.5
   \<and> pointsForNextLevel progress_state = 400
   \<and> scoreSinceLastBoss (boss_trigger MEDIUM rnd0 progress_state) = 0
   \<and> bossActive (boss_trigger MEDIUM rnd0 progress_state)
   \<and> t_type (last (targets (boss_trigger MEDIUM rnd0 progress_state))) = BOSS
   \<and> scoreSinceLastBoss (spawning MEDIUM rnd0 16 progress_state) = 0"
proof -
  have a: "\<not> bossActive progress_state"
    by (simp add: progress_state_def init_state_def)
  have b: "scoreSinceLastBoss progress_state > pointsForNextLevel progress_state"
    by (simp add: progress_state_def init_state_def pointsForNextLevel_def POINTS_PER_LEVEL_def)
  have c: "scoreSinceLastBoss progress_state = 412.5 \<and> pointsForNextLevel progress_state = 400"
    by (simp add: progress_state_def init_state_def pointsForNextLevel_def POINTS_PER_LEVEL_def)
  from boss_trigger_resets_progress[OF a b, of MEDIUM rnd0 16] a c show ?thesis by simp
qed

lemma update_projectile_match:
  assumes "p_active (projectilePool s ! pj)"
    and "find_hit (advance tf (projectilePool s ! pj)) (targets s) (length (targets s)) = Some i"
    and "p_color (projectilePool s ! pj) = t_color (targets s ! i)"
  shows "update_projectile d rnd tf pj s =
           deactivate pj (on_match d rnd pj i
             (s\<lparr>projectilePool := (projectilePool s)[pj := advance tf (projectilePool s ! pj)]\<rparr>))"
proof -
  have "p_color (advance tf (projectilePool s ! pj)) = p_color (projectilePool s ! pj)"
    by (simp add: advance_def)
  with assms show ?thesis by (simp add: update_projectile_def Let_def)
qed

lemma update_projectile_mismatch:
  assumes "p_active (projectilePool s ! pj)"
    and "find_hit (advance tf (projectilePool s ! pj)) (targets s) (length (targets s)) = Some i"
    and "p_color (projectilePool s ! pj) \<noteq> t_color (targets s ! i)"
  shows "update_projectile d rnd tf pj s =
           deactivate pj (on_mismatch
             (s\<lparr>projectilePool := (projectilePool s)[pj := advance tf (projectilePool s ! pj)]\<rparr>))"
proof -
  have "p_color (advance tf (projectilePool s ! pj)) = p_color (projectilePool s ! pj)"
    by (simp add: advance_def)
  with assms show ?thesis by (simp add: update_projectile_def Let_def)
qed



subsection \<open>Destroying the boss\<close>

lemma kill_stats_bossKills: "bossKills (kill_stats ty st) = bossKills st"
  by (simp add: kill_stats_def Let_def)

lemma boss_defeated_fields:
  "level (boss_defeated s) = level s + 1
   \<and> \<not> bossActive (boss_defeated s)
   \<and> scoreSinceLastBoss (boss_defeated s) = 0
   \<and> speedMultiplier (boss_defeated s) = speedMultiplier s + 0.2
   \<and> baseSpawnInterval (boss_defeated s) = max 300 (baseSpawnInterval s - 50)
   \<and> bossKills (sessionStats (boss_defeated s)) = bossKills (sessionStats s) + 1
   \<and> targets (boss_defeated s) = targets s
   \<and> score (boss_defeated s) = score s
   \<and> streak (boss_defeated s) = streak s"
  by (simp add: boss_defeated_def Let_def)

lemma destroy_boss:
  assumes "t_type (targets s ! i) = BOSS"
  shows "destroy d rnd pj i s =
           (let s3 = boss_defeated
                  (s\<lparr>score := score s + baseScoreOf BOSS * scoreMultiplier d
                                  * streakMultiplier (streak s),
                      scoreSinceLastBoss := scoreSinceLastBoss s + 50\<rparr>)
            in s3\<lparr>sessionStats := kill_stats BOSS (sessionStats s3),
                   targets := splice1 i (targets s3)\<rparr>)"
  using assms by (simp add: destroy_def Let_def)

lemma count_hit_fields:
  "targets (count_hit s) = targets s \<and> streak (count_hit s) = streak s + 1
   \<and> level (count_hit s) = level s \<and> score (count_hit s) = score s
   \<and> speedMultiplier (count_hit s) = speedMultiplier s
   \<and> baseSpawnInterval (count_hit s) = baseSpawnInterval s
   \<and> bossKills (sessionStats (count_hit s)) = bossKills (sessionStats s)
   \<and> splitKills (sessionStats (count_hit s)) = splitKills (sessionStats s)"
  by (simp add: count_hit_def Let_def)


lemma deactivate_fields:
  "level (deactivate pj s) = level s \<and> bossActive (deactivate pj s) = bossActive s
   \<and> scoreSinceLastBoss (deactivate pj s) = scoreSinceLastBoss s
   \<and> speedMultiplier (deactivate pj s) = speedMultiplier s
   \<and> baseSpawnInterval (deactivate pj s) = baseSpawnInterval s
   \<and> sessionStats (deactivate pj s) = sessionStats s
   \<and> targets (deactivate pj s) = targets s
   \<and> score (deactivate pj s) = score s
   \<and> streak (deactivate pj s) = streak s
   \<and> isEnding (deactivate pj s) = isEnding s
   \<and> handoffTimers (deactivate pj s) = handoffTimers s"
  by (simp add: deactivate_def)

theorem boss_destroyed:
  assumes "pj < length (projectilePool s)"
    and "p_active (projectilePool s ! pj)"
    and "find_hit (advance tf (projectilePool s ! pj)) (targets s) (length (targets s)) = Some i"
    and "p_color (projectilePool s ! pj) = t_color (targets s ! i)"
    and "t_type (targets s ! i) = BOSS"
    and "t_health (targets s ! i) \<le> 1"
  shows "level (update_projectile d rnd tf pj s) = level s + 1
         \<and> \<not> bossActive (update_projectile d rnd tf pj s)
         \<and> scoreSinceLastBoss (update_projectile d rnd tf pj s) = 0
         \<and> speedMultiplier (update_projectile d rnd tf pj s) = speedMultiplier s + 0.2
         \<and> baseSpawnInterval (update_projectile d rnd tf pj s)
              = max 300 (baseSpawnInterval s - 50)
         \<and> 300 \<le> baseSpawnInterval (update_projectile d rnd tf pj s)
         \<and> (300 < baseSpawnInterval s \<longrightarrow>
              baseSpawnInterval (update_projectile d rnd tf pj s) < baseSpawnInterval s)
         \<and> bossKills (sessionStats (update_projectile d rnd tf pj s))
              = bossKills (sessionStats s) + 1
         \<and> targets (update_projectile d rnd tf pj s) = splice1 i (targets s)
         \<and> score (update_projectile d rnd tf pj s)
              = score s + 250 * scoreMultiplier d * streakMultiplier (streak s + 1)"
proof -
  define s1 where
    "s1 = s\<lparr>projectilePool := (projectilePool s)[pj := advance tf (projectilePool s ! pj)]\<rparr>"
  define s3 where "s3 = count_hit s1"
  define s4 where
    "s4 = s3\<lparr>score := score s3 + baseScoreOf BOSS * scoreMultiplier d
                           * streakMultiplier (streak s3),
               scoreSinceLastBoss := scoreSinceLastBoss s3 + 50\<rparr>"
  have f1: "targets s1 = targets s" "level s1 = level s" "score s1 = score s"
    "streak s1 = streak s" "speedMultiplier s1 = speedMultiplier s"
    "baseSpawnInterval s1 = baseSpawnInterval s" "sessionStats s1 = sessionStats s"
    by (simp_all add: s1_def)
  have f3: "targets s3 = targets s" "level s3 = level s" "score s3 = score s"
    "streak s3 = streak s + 1" "speedMultiplier s3 = speedMultiplier s"
    "baseSpawnInterval s3 = baseSpawnInterval s"
    "bossKills (sessionStats s3) = bossKills (sessionStats s)"
    using count_hit_fields[of s1] f1 by (simp_all add: s3_def)
  have f4: "targets s4 = targets s" "level s4 = level s"
    "score s4 = score s + 250 * scoreMultiplier d * streakMultiplier (streak s + 1)"
    "speedMultiplier s4 = speedMultiplier s" "baseSpawnInterval s4 = baseSpawnInterval s"
    "bossKills (sessionStats s4) = bossKills (sessionStats s)"
    using f3 by (simp_all add: s4_def baseScoreOf_def)
  have up: "update_projectile d rnd tf pj s = deactivate pj (on_match d rnd pj i s1)"
    unfolding s1_def by (rule update_projectile_match[OF assms(2,3,4)])
  have "\<not> t_health (targets s3 ! i) > 1" using assms(6) f3 by simp
  then have om: "on_match d rnd pj i s1 = destroy d rnd pj i s3"
    by (simp add: on_match_def Let_def s3_def)
  have ty: "t_type (targets s3 ! i) = BOSS" using assms(5) f3 by simp
  have ds: "destroy d rnd pj i s3 =
              (boss_defeated s4)\<lparr>sessionStats := kill_stats BOSS (sessionStats (boss_defeated s4)),
                                  targets := splice1 i (targets (boss_defeated s4))\<rparr>"
    unfolding destroy_boss[OF ty] s4_def Let_def ..
  have res: "update_projectile d rnd tf pj s =
               deactivate pj ((boss_defeated s4)
                 \<lparr>sessionStats := kill_stats BOSS (sessionStats (boss_defeated s4)),
                  targets := splice1 i (targets (boss_defeated s4))\<rparr>)"
    using up om ds by simp
  show ?thesis
    unfolding res
    using boss_defeated_fields[of s4] f4
    by (simp add: deactivate_fields kill_stats_bossKills)
qed


theorem boss_destroyed_witness:
  "0 < length (projectilePool boss_state)
   \<and> p_active (projectilePool boss_state ! 0)
   \<and> find_hit (advance 1 (projectilePool boss_state ! 0)) (targets boss_state)
        (length (targets boss_state)) = Some 0
   \<and> p_color (projectilePool boss_state ! 0) = t_color (targets boss_state ! 0)
   \<and> t_type (targets boss_state ! 0) = BOSS
   \<and> t_health (targets boss_state ! 0) \<le> 1
   \<and> level boss_state = 1
   \<and> level (update_projectile MEDIUM rnd0 1 0 boss_state) = 2
   \<and> \<not> bossActive (update_projectile MEDIUM rnd0 1 0 boss_state)
   \<and> scoreSinceLastBoss (update_projectile MEDIUM rnd0 1 0 boss_state) = 0
   \<and> speedMultiplier (update_projectile MEDIUM rnd0 1 0 boss_state) = 1.2
   \<and> baseSpawnInterval boss_state = 1600
   \<and> baseSpawnInterval (update_projectile MEDIUM rnd0 1 0 boss_state) = 1550
   \<and> bossKills (sessionStats (update_projectile MEDIUM rnd0 1 0 boss_state)) = 1
   \<and> targets (update_projectile MEDIUM rnd0 1 0 boss_state) = []"
proof -
  have h1: "0 < length (projectilePool boss_state)"
    by (simp add: boss_state_def)
  have h2: "p_active (projectilePool boss_state ! 0)"
    by (simp add: boss_state_def)
  have h3: "find_hit (advance 1 (projectilePool boss_state ! 0)) (targets boss_state)
        (length (targets boss_state)) = Some 0"
    by (simp add: boss_state_def advance_def in_range_iff)
  have h4: "p_color (projectilePool boss_state ! 0) = t_color (targets boss_state ! 0)"
    by (simp add: boss_state_def)
  have h5: "t_type (targets boss_state ! 0) = BOSS"
    by (simp add: boss_state_def)
  have h6: "t_health (targets boss_state ! 0) \<le> 1"
    by (simp add: boss_state_def)
  have v: "level boss_state = 1 \<and> baseSpawnInterval boss_state = 1600
           \<and> speedMultiplier boss_state = 1 \<and> bossKills (sessionStats boss_state) = 0
           \<and> splice1 0 (targets boss_state) = []"
    by (simp add: boss_state_def init_state_def init_stats_def SPAWN_INTERVAL_START_def
        splice1_def)
  from boss_destroyed[OF h1 h2 h3 h4 h5 h6, of MEDIUM rnd0] h1 h2 h3 h4 h5 h6 v
  show ?thesis by simp
qed

subsection \<open>Splitting\<close>

lemma norm_pos:
  fixes x y :: real
  assumes "x \<noteq> 0 \<or> y \<noteq> 0"
  shows "0 < sqrt (x * x + y * y)"
proof -
  have "0 < x * x + y * y"
    using assms by (metis add_pos_nonneg add_nonneg_pos zero_le_square
        mult_eq_0_iff less_le)
  then show ?thesis by simp
qed

lemma arctan_ratio:
  fixes x y :: real
  assumes x: "x \<noteq> 0"
  shows "cos (arctan (y / x)) = \<bar>x\<bar> / sqrt (x * x + y * y)"
    and "sin (arctan (y / x)) = (y / x) * \<bar>x\<bar> / sqrt (x * x + y * y)"
proof -
  have "1 + (y / x)\<^sup>2 = (x * x + y * y) / (x * x)"
    using x by (simp add: power2_eq_square field_simps)
  then have s: "sqrt (1 + (y / x)\<^sup>2) = sqrt (x * x + y * y) / \<bar>x\<bar>"
    by (simp add: real_sqrt_divide)
  show "cos (arctan (y / x)) = \<bar>x\<bar> / sqrt (x * x + y * y)"
    by (simp add: cos_arctan s)
  show "sin (arctan (y / x)) = (y / x) * \<bar>x\<bar> / sqrt (x * x + y * y)"
    by (simp add: sin_arctan s)
qed

lemma atan2_cos_sin:
  assumes "x \<noteq> 0 \<or> y \<noteq> 0"
  shows "cos (atan2 y x) = x / sqrt (x * x + y * y)
         \<and> sin (atan2 y x) = y / sqrt (x * x + y * y)"
proof -
  consider "0 < x" | "x < 0" "0 \<le> y" | "x < 0" "y < 0" | "x = 0" "0 < y" | "x = 0" "y < 0"
    using assms by linarith
  then show ?thesis
  proof cases
    case 1
    then show ?thesis using arctan_ratio[of x y] by (simp add: atan2_def)
  next
    case 2
    then show ?thesis using arctan_ratio[of x y] by (simp add: atan2_def)
  next
    case 3
    then show ?thesis using arctan_ratio[of x y] by (simp add: atan2_def)
  next
    case 4
    then show ?thesis by (simp add: atan2_def)
  next
    case 5
    then show ?thesis by (simp add: atan2_def)
  qed
qed


lemma scaled_unit:
  fixes a v :: real
  shows "(cos a * v) * (cos a * v) + (sin a * v) * (sin a * v) = v * v"
proof -
  have "(cos a * v) * (cos a * v) + (sin a * v) * (sin a * v)
          = v * v * (cos a * cos a + sin a * sin a)"
    by (simp only: algebra_simps)
  then show ?thesis by (simp only: sin_cos_squared_add3 mult_1_right)
qed

lemma polar_dot:
  fixes r v ct st c2 s2 x y :: real
  assumes "x = r * ct" "y = r * st"
  shows "x * (c2 * v) + y * (s2 * v) = r * v * (ct * c2 + st * s2)"
    and "x * (s2 * v) - y * (c2 * v) = r * v * (ct * s2 - st * c2)"
  unfolding assms by (simp_all only: algebra_simps)


lemma angle_between:
  fixes th a :: real
  shows "cos th * cos (th + a) + sin th * sin (th + a) = cos a"
    and "cos th * sin (th + a) - sin th * cos (th + a) = sin a"
proof -
  have "cos ((th + a) - th) = cos (th + a) * cos th + sin (th + a) * sin th"
    by (rule cos_diff)
  then show "cos th * cos (th + a) + sin th * sin (th + a) = cos a"
    by (simp add: mult.commute)
  have "sin ((th + a) - th) = sin (th + a) * cos th - cos (th + a) * sin th"
    by (rule sin_diff)
  then show "cos th * sin (th + a) - sin th * cos (th + a) = sin a"
    by (simp add: mult.commute)
qed

lemma split_child_fields:
  "t_type (split_child rnd pj t k) = NORMAL
   \<and> t_color (split_child rnd pj t k) = t_color t
   \<and> t_radius (split_child rnd pj t k) = t_radius t * 0.6
   \<and> t_health (split_child rnd pj t k) = 1
   \<and> t_vx (split_child rnd pj t k)
        = cos (heading t + (if k = 0 then 1 else - 1) * (pi / 3)) * childSpeed t
   \<and> t_vy (split_child rnd pj t k)
        = sin (heading t + (if k = 0 then 1 else - 1) * (pi / 3)) * childSpeed t"
  by (simp add: split_child_def Let_def childSpeed_def heading_def)

lemma childSpeed_ge: "4 \<le> childSpeed t"
  by (simp add: childSpeed_def)

lemma child_speed:
  "sqrt (t_vx (split_child rnd pj t k) * t_vx (split_child rnd pj t k)
         + t_vy (split_child rnd pj t k) * t_vy (split_child rnd pj t k)) = childSpeed t"
proof -
  let ?a = "heading t + (if k = 0 then 1 else - 1) * (pi / 3)"
  let ?v = "childSpeed t"
  have f: "t_vx (split_child rnd pj t k) = cos ?a * ?v"
    "t_vy (split_child rnd pj t k) = sin ?a * ?v"
    using split_child_fields[of rnd pj t k] by simp_all
  have "sqrt ((cos ?a * ?v) * (cos ?a * ?v) + (sin ?a * ?v) * (sin ?a * ?v)) = \<bar>?v\<bar>"
    unfolding scaled_unit by (rule real_sqrt_abs2)
  moreover have "0 \<le> ?v" using childSpeed_ge[of t] by linarith
  ultimately show ?thesis unfolding f by simp
qed

lemma child_heading:
  assumes nz: "t_vx t \<noteq> 0 \<or> t_vy t \<noteq> 0"
  shows "t_vx t * t_vx (split_child rnd pj t k) + t_vy t * t_vy (split_child rnd pj t k)
           = sqrt (t_vx t * t_vx t + t_vy t * t_vy t) * childSpeed t * cos (pi / 3)"
    and "t_vx t * t_vy (split_child rnd pj t k) - t_vy t * t_vx (split_child rnd pj t k)
           = sqrt (t_vx t * t_vx t + t_vy t * t_vy t) * childSpeed t
             * (if k = 0 then sin (pi / 3) else - sin (pi / 3))"
proof -
  let ?r = "sqrt (t_vx t * t_vx t + t_vy t * t_vy t)"
  let ?a = "(if k = 0 then 1 else - 1) * (pi / 3)"
  let ?v = "childSpeed t"
  have r0: "0 < ?r" using nz by (rule norm_pos)
  have cs: "cos (heading t) = t_vx t / ?r" "sin (heading t) = t_vy t / ?r"
    using atan2_cos_sin[OF nz] by (simp_all add: heading_def)
  have xy: "t_vx t = ?r * cos (heading t)" "t_vy t = ?r * sin (heading t)"
    using r0 by (simp_all add: cs)
  have f: "t_vx (split_child rnd pj t k) = cos (heading t + ?a) * ?v"
    "t_vy (split_child rnd pj t k) = sin (heading t + ?a) * ?v"
    using split_child_fields[of rnd pj t k] by simp_all
  have "t_vx t * t_vx (split_child rnd pj t k) + t_vy t * t_vy (split_child rnd pj t k)
          = ?r * ?v * (cos (heading t) * cos (heading t + ?a)
                       + sin (heading t) * sin (heading t + ?a))"
    unfolding f by (rule polar_dot(1)[OF xy])
  also have "\<dots> = ?r * ?v * cos ?a" by (simp only: angle_between)
  also have "cos ?a = cos (pi / 3)" by simp
  finally show "t_vx t * t_vx (split_child rnd pj t k) + t_vy t * t_vy (split_child rnd pj t k)
           = ?r * ?v * cos (pi / 3)" .
  have "t_vx t * t_vy (split_child rnd pj t k) - t_vy t * t_vx (split_child rnd pj t k)
          = ?r * ?v * (cos (heading t) * sin (heading t + ?a)
                       - sin (heading t) * cos (heading t + ?a))"
    unfolding f by (rule polar_dot(2)[OF xy])
  also have "\<dots> = ?r * ?v * sin ?a" by (simp only: angle_between)
  also have "sin ?a = (if k = 0 then sin (pi / 3) else - sin (pi / 3))" by simp
  finally show "t_vx t * t_vy (split_child rnd pj t k) - t_vy t * t_vx (split_child rnd pj t k)
           = ?r * ?v * (if k = 0 then sin (pi / 3) else - sin (pi / 3))" .
qed


lemma splice1_length: "i < length xs \<Longrightarrow> length (splice1 i xs) + 1 = length xs"
  by (simp add: splice1_def)

lemma kill_stats_splitKills:
  "splitKills (kill_stats ty st) = (if ty = SPLIT then splitKills st + 1 else splitKills st)"
  by (simp add: kill_stats_def Let_def)

lemma destroy_split_stats:
  "t_type (targets s ! i) = SPLIT \<Longrightarrow>
   splitKills (sessionStats (destroy d rnd pj i s)) = splitKills (sessionStats s) + 1"
  by (simp add: destroy_def Let_def kill_stats_splitKills)

text \<open>
  C8: a colour-matching hit on a SPLIT target removes it and appends exactly two targets,
  so the list grows by exactly 1. Both children are NORMAL, have the parent's colour and
  0.6 times its radius. Their velocities are the parent's heading turned by +60 and by
  -60 degrees, at the speed \<open>max 4 (1.5 * parent speed)\<close>; for a parent that moves, the
  angle between its velocity and each child's is 60 degrees (the scalar product is the
  product of the speeds times \<open>cos (pi / 3)\<close>), to one side for the first child and to
  the other for the second.
\<close>

theorem split_children:
  assumes "pj < length (projectilePool s)"
    and "p_active (projectilePool s ! pj)"
    and "find_hit (advance tf (projectilePool s ! pj)) (targets s) (length (targets s)) = Some i"
    and "p_color (projectilePool s ! pj) = t_color (targets s ! i)"
    and "t_type (targets s ! i) = SPLIT"
  shows "targets (update_projectile d rnd tf pj s) =
           splice1 i (targets s)
             @ [split_child rnd pj (targets s ! i) 0, split_child rnd pj (targets s ! i) 1]
         \<and> length (targets (update_projectile d rnd tf pj s)) = length (targets s) + 1
         \<and> splitKills (sessionStats (update_projectile d rnd tf pj s))
              = splitKills (sessionStats s) + 1
         \<and> (\<forall>k. t_type (split_child rnd pj (targets s ! i) k) = NORMAL
               \<and> t_color (split_child rnd pj (targets s ! i) k) = t_color (targets s ! i)
               \<and> t_radius (split_child rnd pj (targets s ! i) k) = t_radius (targets s ! i) * 0.6
               \<and> sqrt (t_vx (split_child rnd pj (targets s ! i) k)
                         * t_vx (split_child rnd pj (targets s ! i) k)
                       + t_vy (split_child rnd pj (targets s ! i) k)
                         * t_vy (split_child rnd pj (targets s ! i) k))
                  = max 4 (sqrt (t_vx (targets s ! i) * t_vx (targets s ! i)
                                 + t_vy (targets s ! i) * t_vy (targets s ! i)) * 1.5))
         \<and> t_vx (split_child rnd pj (targets s ! i) 0)
              = cos (heading (targets s ! i) + pi / 3) * childSpeed (targets s ! i)
         \<and> t_vy (split_child rnd pj (targets s ! i) 0)
              = sin (heading (targets s ! i) + pi / 3) * childSpeed (targets s ! i)
         \<and> t_vx (split_child rnd pj (targets s ! i) 1)
              = cos (heading (targets s ! i) - pi / 3) * childSpeed (targets s ! i)
         \<and> t_vy (split_child rnd pj (targets s ! i) 1)
              = sin (heading (targets s ! i) - pi / 3) * childSpeed (targets s ! i)
         \<and> (t_vx (targets s ! i) \<noteq> 0 \<or> t_vy (targets s ! i) \<noteq> 0 \<longrightarrow>
              (\<forall>k. t_vx (targets s ! i) * t_vx (split_child rnd pj (targets s ! i) k)
                    + t_vy (targets s ! i) * t_vy (split_child rnd pj (targets s ! i) k)
                   = sqrt (t_vx (targets s ! i) * t_vx (targets s ! i)
                           + t_vy (targets s ! i) * t_vy (targets s ! i))
                     * childSpeed (targets s ! i) * cos (pi / 3))
              \<and> t_vx (targets s ! i) * t_vy (split_child rnd pj (targets s ! i) 0)
                  - t_vy (targets s ! i) * t_vx (split_child rnd pj (targets s ! i) 0)
                 = sqrt (t_vx (targets s ! i) * t_vx (targets s ! i)
                         + t_vy (targets s ! i) * t_vy (targets s ! i))
                   * childSpeed (targets s ! i) * sin (pi / 3)
              \<and> t_vx (targets s ! i) * t_vy (split_child rnd pj (targets s ! i) 1)
                  - t_vy (targets s ! i) * t_vx (split_child rnd pj (targets s ! i) 1)
                 = - (sqrt (t_vx (targets s ! i) * t_vx (targets s ! i)
                            + t_vy (targets s ! i) * t_vy (targets s ! i))
                      * childSpeed (targets s ! i) * sin (pi / 3)))"
proof -
  define s1 where
    "s1 = s\<lparr>projectilePool := (projectilePool s)[pj := advance tf (projectilePool s ! pj)]\<rparr>"
  define s3 where "s3 = count_hit s1"
  define parent where "parent = targets s ! i"
  have i: "i < length (targets s)" using find_hit_Some[OF assms(3)] by simp
  have f1: "targets s1 = targets s" "sessionStats s1 = sessionStats s"
    by (simp_all add: s1_def)
  have f3: "targets s3 = targets s" "splitKills (sessionStats s3) = splitKills (sessionStats s)"
    using count_hit_fields[of s1] f1 by (simp_all add: s3_def)
  have up: "update_projectile d rnd tf pj s = deactivate pj (on_match d rnd pj i s1)"
    unfolding s1_def by (rule update_projectile_match[OF assms(2,3,4)])
  have ty: "t_type (targets s3 ! i) = SPLIT" using assms(5) f3 by simp
  then have om: "on_match d rnd pj i s1 = destroy d rnd pj i s3"
    by (simp add: on_match_def Let_def s3_def)
  have res: "update_projectile d rnd tf pj s = deactivate pj (destroy d rnd pj i s3)"
    using up om by simp
  have t: "targets (update_projectile d rnd tf pj s) =
             splice1 i (targets s) @ [split_child rnd pj parent 0, split_child rnd pj parent 1]"
    unfolding res using ty f3 by (simp add: deactivate_fields destroy_targets parent_def)
  have l: "length (targets (update_projectile d rnd tf pj s)) = length (targets s) + 1"
    unfolding t using splice1_length[OF i] by simp
  have st: "splitKills (sessionStats (update_projectile d rnd tf pj s))
              = splitKills (sessionStats s) + 1"
    unfolding res using destroy_split_stats[OF ty, of d rnd pj] f3
    by (simp add: deactivate_fields)
  have sp: "\<And>k. sqrt (t_vx (split_child rnd pj parent k) * t_vx (split_child rnd pj parent k)
                      + t_vy (split_child rnd pj parent k) * t_vy (split_child rnd pj parent k))
                 = max 4 (sqrt (t_vx parent * t_vx parent + t_vy parent * t_vy parent) * 1.5)"
    unfolding child_speed by (simp add: childSpeed_def)
  have hd: "t_vx parent \<noteq> 0 \<or> t_vy parent \<noteq> 0 \<Longrightarrow>
              (\<forall>k. t_vx parent * t_vx (split_child rnd pj parent k)
                    + t_vy parent * t_vy (split_child rnd pj parent k)
                   = sqrt (t_vx parent * t_vx parent + t_vy parent * t_vy parent)
                     * childSpeed parent * cos (pi / 3))
              \<and> t_vx parent * t_vy (split_child rnd pj parent 0)
                  - t_vy parent * t_vx (split_child rnd pj parent 0)
                 = sqrt (t_vx parent * t_vx parent + t_vy parent * t_vy parent)
                   * childSpeed parent * sin (pi / 3)
              \<and> t_vx parent * t_vy (split_child rnd pj parent 1)
                  - t_vy parent * t_vx (split_child rnd pj parent 1)
                 = - (sqrt (t_vx parent * t_vx parent + t_vy parent * t_vy parent)
                      * childSpeed parent * sin (pi / 3))"
    using child_heading(1)[of parent rnd pj] child_heading(2)[of parent rnd pj 0]
      child_heading(2)[of parent rnd pj 1]
    by simp
  show ?thesis
    unfolding parent_def[symmetric]
    using t l st sp hd split_child_fields[of rnd pj parent]
    by (simp del: cos_60 sin_60)
qed


theorem split_children_witness:
  "0 < length (projectilePool split_state)
   \<and> p_active (projectilePool split_state ! 0)
   \<and> find_hit (advance 1 (projectilePool split_state ! 0)) (targets split_state)
        (length (targets split_state)) = Some 0
   \<and> p_color (projectilePool split_state ! 0) = t_color (targets split_state ! 0)
   \<and> t_type (targets split_state ! 0) = SPLIT
   \<and> t_vx (targets split_state ! 0) = 1 \<and> t_vy (targets split_state ! 0) = 0
   \<and> length (targets split_state) = 1
   \<and> length (targets (update_projectile MEDIUM rnd0 1 0 split_state)) = 2
   \<and> t_type (targets (update_projectile MEDIUM rnd0 1 0 split_state) ! 0) = NORMAL
   \<and> t_type (targets (update_projectile MEDIUM rnd0 1 0 split_state) ! 1) = NORMAL
   \<and> t_color (targets (update_projectile MEDIUM rnd0 1 0 split_state) ! 0) = RED
   \<and> t_color (targets (update_projectile MEDIUM rnd0 1 0 split_state) ! 1) = RED
   \<and> t_vx (targets (update_projectile MEDIUM rnd0 1 0 split_state) ! 0) = 2
   \<and> t_vy (targets (update_projectile MEDIUM rnd0 1 0 split_state) ! 0) = 2 * sqrt 3
   \<and> t_vx (targets (update_projectile MEDIUM rnd0 1 0 split_state) ! 1) = 2
   \<and> t_vy (targets (update_projectile MEDIUM rnd0 1 0 split_state) ! 1) = - (2 * sqrt 3)
   \<and> 1 * t_vx (split_child rnd0 0 (targets split_state ! 0) 0)
       + 0 * t_vy (split_child rnd0 0 (targets split_state ! 0) 0) = 1 * 4 * (1 / 2)"
proof -
  have h1: "0 < length (projectilePool split_state)"
    by (simp add: split_state_def)
  have h2: "p_active (projectilePool split_state ! 0)"
    by (simp add: split_state_def)
  have h3: "find_hit (advance 1 (projectilePool split_state ! 0)) (targets split_state)
        (length (targets split_state)) = Some 0"
    by (simp add: split_state_def advance_def in_range_iff)
  have h4: "p_color (projectilePool split_state ! 0) = t_color (targets split_state ! 0)"
    by (simp add: split_state_def)
  have h5: "t_type (targets split_state ! 0) = SPLIT"
    by (simp add: split_state_def)
  have v: "t_vx (targets split_state ! 0) = 1 \<and> t_vy (targets split_state ! 0) = 0
           \<and> t_color (targets split_state ! 0) = RED
           \<and> length (targets split_state) = 1
           \<and> splice1 0 (targets split_state) = []"
    by (simp add: split_state_def splice1_def)
  have hv: "heading (targets split_state ! 0) = 0 \<and> childSpeed (targets split_state ! 0) = 4"
    using v by (simp add: heading_def childSpeed_def atan2_def)
  from split_children[OF h1 h2 h3 h4 h5, of MEDIUM rnd0] h1 h2 h3 h4 h5 v hv
  show ?thesis by (simp add: cos_60 sin_60)
qed

subsection \<open>The density cap\<close>

lemma cap_frame:
  "(let s' = animate EASY 1016.667 rnd0 cap_state
    in length (targets s') = 9 \<and> speedMultiplier s' = 1)"
  by (simp add: frame_eval cap_state_def stationary_at_def shoot_eval index_pairs_def
      collide_at_def collide_pair_def[unfolded Let_def] update_projectiles_slot0)


lemma cap_start:
  "length (targets cap_state) = 8 \<and> currentMaxTargets EASY cap_state = 8"
  by (simp add: cap_state_def init_state_def currentMaxTargets_def calculatedMax_def)

text \<open>
  C2, as the specification states it, fails: a tick that destroys a SPLIT target while
  the list is at the cap leaves the list one longer than the cap.
\<close>

theorem split_exceeds_cap:
  "int (length (targets cap_state)) \<le> currentMaxTargets EASY cap_state
   \<and> currentMaxTargets EASY (animate EASY 1016.667 rnd0 cap_state)
       < int (length (targets (animate EASY 1016.667 rnd0 cap_state)))"
proof -
  have "currentMaxTargets EASY (animate EASY 1016.667 rnd0 cap_state) = 8"
    using cap_frame by (simp add: Let_def currentMaxTargets_def calculatedMax_def)
  then show ?thesis using cap_frame cap_start by (simp add: Let_def)
qed

lemma ordinary_spawn_speed:
  "speedMultiplier (ordinary_spawn d rnd s) = speedMultiplier s"
  by (simp add: ordinary_spawn_def Let_def)

lemma ordinary_spawn_length:
  "length (targets (ordinary_spawn d rnd s)) = length (targets s)
   \<or> (int (length (targets s)) < currentMaxTargets d s
       \<and> length (targets (ordinary_spawn d rnd s)) = length (targets s) + 1)"
  by (simp add: ordinary_spawn_def Let_def)

lemma spawn_timer_cases:
  "spawn_timer d rnd dt s = s\<lparr>spawnTimer := spawnTimer s + dt\<rparr>
   \<or> spawn_timer d rnd dt s =
       ordinary_spawn d rnd
         (s\<lparr>spawnTimer := 0,
            nextSpawnDelay := baseSpawnInterval s * (0.6 + rnd Interval 0 * 0.8)\<rparr>)"
  by (simp add: spawn_timer_def Let_def)

text \<open>
  C2, amended: the density cap is \<open>min (floor (maxTargets * (1 + (speedMultiplier - 1)
  * 0.5))) 24\<close>, at most 24, and it gates the ordinary spawn only: an ordinary spawn
  appends at most one target, and only to a list shorter than the cap, so a list within
  the cap stays within it, through the spawn itself and through the spawn-timer step of
  a tick.
\<close>

theorem ordinary_spawn_within_cap:
  "currentMaxTargets d s = min \<lfloor>maxTargets d * (1 + (speedMultiplier s - 1) * 0.5)\<rfloor> 24
   \<and> currentMaxTargets d s \<le> 24
   \<and> (length (targets (ordinary_spawn d rnd s)) \<noteq> length (targets s) \<longrightarrow>
        int (length (targets s)) < currentMaxTargets d s
        \<and> length (targets (ordinary_spawn d rnd s)) = length (targets s) + 1)
   \<and> (int (length (targets s)) \<le> currentMaxTargets d s \<longrightarrow>
        int (length (targets (ordinary_spawn d rnd s)))
          \<le> currentMaxTargets d (ordinary_spawn d rnd s)
        \<and> int (length (targets (spawn_timer d rnd dt s)))
          \<le> currentMaxTargets d (spawn_timer d rnd dt s))"
proof -
  have cap: "\<And>s' s''. speedMultiplier s' = speedMultiplier s'' \<Longrightarrow>
                  currentMaxTargets d s' = currentMaxTargets d s''"
    by (simp add: currentMaxTargets_def calculatedMax_def)
  have a: "currentMaxTargets d (ordinary_spawn d rnd s) = currentMaxTargets d s"
    by (rule cap[OF ordinary_spawn_speed])
  let ?s2 = "s\<lparr>spawnTimer := 0,
               nextSpawnDelay := baseSpawnInterval s * (0.6 + rnd Interval 0 * 0.8)\<rparr>"
  have c2: "currentMaxTargets d ?s2 = currentMaxTargets d s" by (rule cap) simp
  have b: "currentMaxTargets d (ordinary_spawn d rnd ?s2) = currentMaxTargets d s"
    using cap[OF ordinary_spawn_speed[of d rnd ?s2]] c2 by simp
  have t2: "targets ?s2 = targets s" by simp
  have st: "int (length (targets s)) \<le> currentMaxTargets d s \<Longrightarrow>
            int (length (targets (spawn_timer d rnd dt s)))
              \<le> currentMaxTargets d (spawn_timer d rnd dt s)"
  proof -
    assume le: "int (length (targets s)) \<le> currentMaxTargets d s"
    from spawn_timer_cases[of d rnd dt s] show ?thesis
    proof
      assume e: "spawn_timer d rnd dt s = s\<lparr>spawnTimer := spawnTimer s + dt\<rparr>"
      have "currentMaxTargets d (s\<lparr>spawnTimer := spawnTimer s + dt\<rparr>) = currentMaxTargets d s"
        by (rule cap) simp
      then show ?thesis using le e by simp
    next
      assume e: "spawn_timer d rnd dt s = ordinary_spawn d rnd ?s2"
      from ordinary_spawn_length[of d rnd ?s2] le b c2 t2 show ?thesis
        unfolding e by auto
    qed
  qed
  show ?thesis
    using ordinary_spawn_length[of d rnd s] a st
    by (auto simp: currentMaxTargets_def calculatedMax_def)
qed

theorem ordinary_spawn_within_cap_witness:
  "currentMaxTargets MEDIUM (init_state MEDIUM False 400 800) = 12
   \<and> length (targets (init_state MEDIUM False 400 800)) = 0
   \<and> length (targets (ordinary_spawn MEDIUM rnd0 (init_state MEDIUM False 400 800))) = 1
   \<and> int (length (targets (ordinary_spawn MEDIUM rnd0 (init_state MEDIUM False 400 800))))
        \<le> currentMaxTargets MEDIUM (ordinary_spawn MEDIUM rnd0 (init_state MEDIUM False 400 800))
   \<and> int (length (targets (spawn_timer MEDIUM rnd0 16 (init_state MEDIUM False 400 800))))
        \<le> currentMaxTargets MEDIUM (spawn_timer MEDIUM rnd0 16 (init_state MEDIUM False 400 800))"
proof -
  have a: "currentMaxTargets MEDIUM (init_state MEDIUM False 400 800) = 12
           \<and> length (targets (init_state MEDIUM False 400 800)) = 0"
    by (simp add: init_state_def currentMaxTargets_def calculatedMax_def)
  have b: "length (targets (ordinary_spawn MEDIUM rnd0 (init_state MEDIUM False 400 800))) = 1"
    by (simp add: spawn_eval init_state_def rnd0_def)
  from ordinary_spawn_within_cap[of MEDIUM "init_state MEDIUM False 400 800" rnd0 16] a b
  show ?thesis by simp
qed

end
